theory Spec2Isabelle
  imports Main "HOL-Library.Char_ord" "HOL-Library.List_Lexorder"
begin

section \<open>Text\<close>

text \<open>
  A Python \<open>str\<close> is modelled as a \<open>string\<close> holding the UTF-8 bytes of the text. The
  commands, the delimiter \<open>:\<close> and the stored timestamps are ASCII, and a byte below 128
  never occurs inside the encoding of another character, so prefix tests, \<open>in\<close> and
  \<open>split(':', 1)\<close> on these bytes agree with Python on code points. Whitespace is a
  matter of characters, not of bytes: \<open>strip\<close> and \<open>split\<close> work on the characters of the
  text, each character being the list of its bytes.
\<close>

text \<open>A continuation byte of a multi-byte character.\<close>

definition is_cont :: "char \<Rightarrow> bool" where
  "is_cont c \<longleftrightarrow> CHR 0x80 \<le> c \<and> c \<le> CHR 0xBF"

text \<open>The characters of a text: every byte that starts a character, with the continuation
  bytes that follow it.\<close>

function chars :: "string \<Rightarrow> string list" where
  "chars [] = []"
| "chars (c # cs) = (c # takeWhile is_cont cs) # chars (dropWhile is_cont cs)"
  by pat_completeness auto
termination
  by (relation "measure length") (auto simp: length_dropWhile_le less_Suc_eq_le)

text \<open>
  The 29 characters for which \<open>str.isspace()\<close> holds, which are the ones \<open>str.strip()\<close> and
  \<open>str.split()\<close> take for whitespace: U+0009 to U+000D, U+001C to U+0020, U+0085, U+00A0,
  U+1680, U+2000 to U+200A, U+2028, U+2029, U+202F, U+205F and U+3000.
\<close>

definition whitespace :: "string list" where
  "whitespace =
     [[CHR 0x09], [CHR 0x0A], [CHR 0x0B], [CHR 0x0C], [CHR 0x0D],
      [CHR 0x1C], [CHR 0x1D], [CHR 0x1E], [CHR 0x1F], [CHR 0x20],
      [CHR 0xC2, CHR 0x85], [CHR 0xC2, CHR 0xA0], [CHR 0xE1, CHR 0x9A, CHR 0x80],
      [CHR 0xE2, CHR 0x80, CHR 0x80], [CHR 0xE2, CHR 0x80, CHR 0x81],
      [CHR 0xE2, CHR 0x80, CHR 0x82], [CHR 0xE2, CHR 0x80, CHR 0x83],
      [CHR 0xE2, CHR 0x80, CHR 0x84], [CHR 0xE2, CHR 0x80, CHR 0x85],
      [CHR 0xE2, CHR 0x80, CHR 0x86], [CHR 0xE2, CHR 0x80, CHR 0x87],
      [CHR 0xE2, CHR 0x80, CHR 0x88], [CHR 0xE2, CHR 0x80, CHR 0x89],
      [CHR 0xE2, CHR 0x80, CHR 0x8A], [CHR 0xE2, CHR 0x80, CHR 0xA8],
      [CHR 0xE2, CHR 0x80, CHR 0xA9], [CHR 0xE2, CHR 0x80, CHR 0xAF],
      [CHR 0xE2, CHR 0x81, CHR 0x9F], [CHR 0xE3, CHR 0x80, CHR 0x80]]"

definition isspace :: "string \<Rightarrow> bool" where
  "isspace ch \<longleftrightarrow> ch \<in> set whitespace"

text \<open>\<open>s.strip()\<close>: the text without the whitespace characters at its two ends.\<close>

definition strip :: "string \<Rightarrow> string" where
  "strip s = concat (rev (dropWhile isspace (rev (dropWhile isspace (chars s)))))"

text \<open>
  \<open>s.lower()\<close> follows the case tables of the interpreter (a capital sigma, for one, is
  lower-cased by its place in the word); the route takes the function as it is given,
  as the parameter \<open>lower\<close>. On a text whose characters outside ASCII have no case (a
  no-break space, an em space) it is \<open>lower_ascii\<close>, which lower-cases the letters \<open>A\<close> to
  \<open>Z\<close> and keeps every other byte.
\<close>

definition lower_char :: "char \<Rightarrow> char" where
  "lower_char c =
     (case map_of (zip ''ABCDEFGHIJKLMNOPQRSTUVWXYZ'' ''abcdefghijklmnopqrstuvwxyz'') c of
        Some l \<Rightarrow> l
      | None \<Rightarrow> c)"

definition lower_ascii :: "string \<Rightarrow> string" where
  "lower_ascii s = map lower_char s"

text \<open>\<open>s.startswith(p)\<close>, and \<open>s.startswith((p1, p2, ...))\<close> with a tuple of prefixes.\<close>

definition startswith :: "string \<Rightarrow> string \<Rightarrow> bool" where
  "startswith s p \<longleftrightarrow> take (length p) s = p"

definition startswith_any :: "string \<Rightarrow> string list \<Rightarrow> bool" where
  "startswith_any s ps \<longleftrightarrow> list_ex (startswith s) ps"

text \<open>\<open>s.split(c, 1)[1]\<close>, used only under the test \<open>c in s\<close>: what follows the first \<open>c\<close>.\<close>

definition after_first :: "char \<Rightarrow> string \<Rightarrow> string" where
  "after_first c s = tl (dropWhile (\<lambda>x. x \<noteq> c) s)"

text \<open>
  \<open>s.split()\<close>: the maximal runs of characters that are not whitespace. The first
  argument holds the characters still to be read, the second the run being read.
\<close>

fun split_from :: "string list \<Rightarrow> string \<Rightarrow> string list" where
  "split_from [] cur = (if cur = [] then [] else [cur])"
| "split_from (ch # chs) cur =
     (if isspace ch then (if cur = [] then split_from chs [] else cur # split_from chs [])
      else split_from chs (cur @ ch))"

definition split_ws :: "string \<Rightarrow> string list" where
  "split_ws s = split_from (chars s) []"

text \<open>\<open>sep.join(xs)\<close>\<close>

fun join :: "string \<Rightarrow> string list \<Rightarrow> string" where
  "join sep [] = []"
| "join sep [x] = x"
| "join sep (x # y # ys) = x @ sep @ join sep (y # ys)"

definition digit_char :: "nat \<Rightarrow> char" where
  "digit_char d = ''0123456789'' ! (d mod 10)"

text \<open>\<open>'%02d' % v\<close>, \<open>'%04d' % v\<close> and \<open>'%06d' % v\<close>, for a value that fits the width (every
  field of a \<open>datetime\<close> does).\<close>

definition pad2 :: "nat \<Rightarrow> string" where
  "pad2 v = [digit_char (v div 10), digit_char v]"

definition pad4 :: "nat \<Rightarrow> string" where
  "pad4 v = [digit_char (v div 1000), digit_char (v div 100), digit_char (v div 10), digit_char v]"

definition pad6 :: "nat \<Rightarrow> string" where
  "pad6 v = [digit_char (v div 100000), digit_char (v div 10000), digit_char (v div 1000),
             digit_char (v div 100), digit_char (v div 10), digit_char v]"

text \<open>\<open>str(n)\<close> of a non-negative integer, as an f-string prints it.\<close>

function str_nat :: "nat \<Rightarrow> string" where
  "str_nat n = (if n < 10 then [digit_char n] else str_nat (n div 10) @ [digit_char n])"
  by pat_completeness auto
termination
  by (relation "measure (\<lambda>n. n)") auto

definition is_digit :: "char \<Rightarrow> bool" where
  "is_digit c \<longleftrightarrow> CHR ''0'' \<le> c \<and> c \<le> CHR ''9''"

definition digit_value :: "char \<Rightarrow> nat" where
  "digit_value c = of_char c - 48"

text \<open>\<open>int(s)\<close> of a string of decimal digits.\<close>

definition int_of_digits :: "string \<Rightarrow> nat" where
  "int_of_digits s = foldl (\<lambda>acc c. 10 * acc + digit_value c) 0 s"

section \<open>Timestamps\<close>

text \<open>
  \<open>datetime.now()\<close> returns a naive local \<open>datetime\<close>. The \<open>sqlite3\<close> module stores it
  through its default adapter, \<open>val.isoformat(" ")\<close>, which leaves the fraction out when
  the microsecond field is zero.
\<close>

record datetime =
  year :: nat
  month :: nat
  day :: nat
  hour :: nat
  minute :: nat
  second :: nat
  microsecond :: nat

definition is_leap :: "nat \<Rightarrow> bool" where
  "is_leap y \<longleftrightarrow> y mod 4 = 0 \<and> (y mod 100 \<noteq> 0 \<or> y mod 400 = 0)"

definition days_in_month :: "nat \<Rightarrow> nat \<Rightarrow> nat" where
  "days_in_month y m =
     (if m = 2 then (if is_leap y then 29 else 28)
      else if m \<in> set [4, 6, 9, 11] then 30 else 31)"

text \<open>The values a Python \<open>datetime\<close> can hold; its constructor raises for any other.\<close>

definition valid_datetime :: "datetime \<Rightarrow> bool" where
  "valid_datetime dt \<longleftrightarrow>
     1 \<le> year dt \<and> year dt \<le> 9999 \<and> 1 \<le> month dt \<and> month dt \<le> 12 \<and>
     1 \<le> day dt \<and> day dt \<le> days_in_month (year dt) (month dt) \<and>
     hour dt \<le> 23 \<and> minute dt \<le> 59 \<and> second dt \<le> 59 \<and> microsecond dt \<le> 999999"

text \<open>The fields in the order of their weight: one reading is before another when its
  key is the smaller list.\<close>

definition datetime_key :: "datetime \<Rightarrow> nat list" where
  "datetime_key dt = [year dt, month dt, day dt, hour dt, minute dt, second dt, microsecond dt]"

definition isoformat :: "datetime \<Rightarrow> string" where
  "isoformat dt =
     pad4 (year dt) @ ''-'' @ pad2 (month dt) @ ''-'' @ pad2 (day dt) @ '' '' @
     pad2 (hour dt) @ '':'' @ pad2 (minute dt) @ '':'' @ pad2 (second dt) @
     (if microsecond dt = 0 then [] else ''.'' @ pad6 (microsecond dt))"

datatype py_error = ValueError

text \<open>
  \<open>datetime.strptime(s, '%Y-%m-%d %H:%M:%S.%f')\<close>, on texts laid out as \<open>isoformat\<close> lays
  them out: four digits for the year, two for every other field, the literal separators
  of the format, and a fraction of one to six digits after a mandatory dot. Anything the
  format does not cover, and any field out of range, raises \<open>ValueError\<close>. (Python's
  \<open>strptime\<close> also takes one-digit fields and runs of blanks; \<open>add_participation\<close> never
  writes such a text.)
\<close>

definition strptime :: "string \<Rightarrow> py_error + datetime" where
  "strptime s =
     (let y = take 4 s; mo = take 2 (drop 5 s); d = take 2 (drop 8 s);
          h = take 2 (drop 11 s); mi = take 2 (drop 14 s); se = take 2 (drop 17 s);
          f = drop 20 s;
          dt = \<lparr>year = int_of_digits y, month = int_of_digits mo, day = int_of_digits d,
                hour = int_of_digits h, minute = int_of_digits mi, second = int_of_digits se,
                microsecond = int_of_digits f * 10 ^ (6 - length f)\<rparr>
      in if 21 \<le> length s \<and> length s \<le> 26 \<and>
            list_all is_digit (y @ mo @ d @ h @ mi @ se @ f) \<and>
            s ! 4 = CHR ''-'' \<and> s ! 7 = CHR ''-'' \<and> s ! 10 = CHR '' '' \<and>
            s ! 13 = CHR '':'' \<and> s ! 16 = CHR '':'' \<and> s ! 19 = CHR ''.'' \<and>
            valid_datetime dt
         then Inr dt else Inl ValueError)"

text \<open>\<open>dt.strftime('%d/%m/%Y')\<close> and \<open>dt.strftime('%d/%m %H:%M')\<close>\<close>

definition strftime_dmY :: "datetime \<Rightarrow> string" where
  "strftime_dmY dt = pad2 (day dt) @ ''/'' @ pad2 (month dt) @ ''/'' @ pad4 (year dt)"

definition strftime_dm_HM :: "datetime \<Rightarrow> string" where
  "strftime_dm_HM dt =
     pad2 (day dt) @ ''/'' @ pad2 (month dt) @ '' '' @ pad2 (hour dt) @ '':'' @ pad2 (minute dt)"

section \<open>The participations table\<close>

text \<open>
  One row of \<open>participations\<close>. \<open>row_id\<close> is the column \<open>id\<close>; \<open>participation_date\<close> holds
  the text the adapter wrote; \<open>video_title\<close> is the only nullable column.
\<close>

record participation =
  row_id :: nat
  whatsapp_number :: string
  profile_name :: string
  participation_date :: string
  video_title :: "string option"

text \<open>
  The database file: the rows in rowid order, which is the order of a table scan, and the
  \<open>sqlite_sequence\<close> counter that \<open>AUTOINCREMENT\<close> keeps (the largest id ever given out).
\<close>

record database =
  participations :: "participation list"
  sqlite_sequence :: nat

definition empty_db :: database where
  "empty_db = \<lparr>participations = [], sqlite_sequence = 0\<rparr>"

text \<open>The \<open>PRIMARY KEY AUTOINCREMENT\<close> constraint: ids ascend along the table and none
  exceeds the counter.\<close>

definition db_ok :: "database \<Rightarrow> bool" where
  "db_ok db \<longleftrightarrow> sorted_wrt (<) (map row_id (participations db)) \<and>
               list_all (\<lambda>r. row_id r \<le> sqlite_sequence db) (participations db)"

text \<open>\<open>add_participation\<close>; the second argument is the reading of \<open>datetime.now()\<close>.\<close>

definition add_participation ::
  "database \<Rightarrow> datetime \<Rightarrow> string \<Rightarrow> string \<Rightarrow> string option \<Rightarrow> database" where
  "add_participation db now number name title =
     \<lparr>participations = participations db @
        [\<lparr>row_id = Suc (sqlite_sequence db), whatsapp_number = number, profile_name = name,
          participation_date = isoformat now, video_title = title\<rparr>],
      sqlite_sequence = Suc (sqlite_sequence db)\<rparr>"

text \<open>
  \<open>ORDER BY participation_date DESC\<close>. The column holds text, compared byte by byte.
  The query names no second key. SQLite keeps rows with equal keys in the order the scan
  delivered them (its merge sorter takes the earlier row on a tie, and with \<open>LIMIT\<close> it
  sorts on the key followed by the row's sequence number), and the scan of a table goes
  by ascending rowid: the sort is a stable insertion into descending order.
\<close>

fun insort_desc :: "participation \<Rightarrow> participation list \<Rightarrow> participation list" where
  "insort_desc r [] = [r]"
| "insort_desc r (x # xs) =
     (if participation_date x \<le> participation_date r then r # x # xs
      else x # insort_desc r xs)"

definition order_by_date_desc :: "participation list \<Rightarrow> participation list" where
  "order_by_date_desc rs = foldr insort_desc rs []"

text \<open>The rows the three \<open>SELECT\<close> statements produce, before the projection on columns.\<close>

definition select_user_rows :: "database \<Rightarrow> string \<Rightarrow> participation list" where
  "select_user_rows db number =
     order_by_date_desc (filter (\<lambda>r. whatsapp_number r = number) (participations db))"

definition select_last_rows :: "database \<Rightarrow> nat \<Rightarrow> participation list" where
  "select_last_rows db n = take n (order_by_date_desc (participations db))"

definition get_user_history :: "database \<Rightarrow> string \<Rightarrow> (string \<times> string option) list" where
  "get_user_history db number =
     map (\<lambda>r. (participation_date r, video_title r)) (select_user_rows db number)"

definition get_last_10_records :: "database \<Rightarrow> (string \<times> string \<times> string option) list" where
  "get_last_10_records db =
     map (\<lambda>r. (profile_name r, participation_date r, video_title r)) (select_last_rows db 10)"

text \<open>\<open>delete_last_user_record\<close>: the new database and the returned flag.\<close>

definition delete_last_user_record :: "database \<Rightarrow> string \<Rightarrow> database \<times> bool" where
  "delete_last_user_record db number =
     (case map row_id (take 1 (select_user_rows db number)) of
        [] \<Rightarrow> (db, False)
      | last_record # _ \<Rightarrow>
          (db\<lparr>participations := filter (\<lambda>r. row_id r \<noteq> last_record) (participations db)\<rparr>,
           True))"

section \<open>The report\<close>

text \<open>One row of \<open>report_summary\<close>: the group key and the three aggregated columns.\<close>

record summary_row =
  group_profile_name :: string
  total_participations :: nat
  dates :: string
  videos :: string

text \<open>
  \<open>df.groupby('profile_name').agg(...).reset_index()\<close>: one row for each value of the key
  column, the keys in sorted order; within a group the rows keep the order of the frame.
  \<open>count\<close> counts the ids of the group, the dates are joined, and the titles are joined
  after \<open>dropna\<close>.
\<close>

definition report_summary :: "participation list \<Rightarrow> summary_row list" where
  "report_summary df =
     map (\<lambda>k. let g = filter (\<lambda>r. profile_name r = k) df in
            \<lparr>group_profile_name = k,
             total_participations = length (map row_id g),
             dates = join '' | '' (map participation_date g),
             videos = join '' | '' (map the (filter (\<lambda>t. t \<noteq> None) (map video_title g)))\<rparr>)
         (sort (remdups (map profile_name df)))"

text \<open>What \<open>client.messages.create(from_=..., body=..., to=...)\<close> hands to Twilio.\<close>

record message =
  msg_from :: "string option"
  msg_body :: string
  msg_to :: "string option"

text \<open>What was given to \<open>to_csv\<close> and to \<open>to_excel\<close>; the serialisation is pandas' own.\<close>

datatype file_content = Csv "summary_row list" | Xlsx "summary_row list"

text \<open>
  Everything the program changes: the database file, the messages sent through the
  Twilio client, whether the directory \<open>reports\<close> exists, and the files in it by path.
\<close>

record world =
  db_file :: database
  outbox :: "message list"
  reports_dir :: bool
  files :: "(string \<times> file_content) list"

text \<open>The two environment variables the handlers read; \<open>os.getenv\<close> gives \<open>None\<close> when unset.\<close>

record config =
  twilio_phone_number :: "string option"
  admin_phone_number :: "string option"

definition send_message :: "config \<Rightarrow> string \<Rightarrow> world \<Rightarrow> world" where
  "send_message cfg text w =
     w\<lparr>outbox := outbox w @
        [\<lparr>msg_from = twilio_phone_number cfg, msg_body = text, msg_to = admin_phone_number cfg\<rparr>]\<rparr>"

definition write_file :: "string \<Rightarrow> file_content \<Rightarrow> world \<Rightarrow> world" where
  "write_file path content w =
     w\<lparr>files := (path, content) # filter (\<lambda>e. fst e \<noteq> path) (files w)\<rparr>"

definition nl :: string where
  "nl = [CHR 0x0A]"

text \<open>The texts of the source, as UTF-8 bytes.\<close>

definition no_records_text :: string where
  "no_records_text =
     [CHR 0xE2, CHR 0x84, CHR 0xB9, CHR 0xEF, CHR 0xB8, CHR 0x8F] @
     '' Nenhum registro de participa'' @ [CHR 0xC3, CHR 0xA7, CHR 0xC3, CHR 0xA3] @
     ''o encontrado para gerar o relat'' @ [CHR 0xC3, CHR 0xB3] @ ''rio.''"

definition summary_header :: string where
  "summary_header =
     [CHR 0xF0, CHR 0x9F, CHR 0x93, CHR 0x8A] @ '' *Relat'' @ [CHR 0xC3, CHR 0xB3] @
     ''rio de Participa'' @ [CHR 0xC3, CHR 0xA7, CHR 0xC3, CHR 0xA3] @ ''o*'' @ nl @ nl"

definition summary_line :: "summary_row \<Rightarrow> string" where
  "summary_line row =
     ''*'' @ group_profile_name row @ ''*: '' @ str_nat (total_participations row) @
     '' participa'' @ [CHR 0xC3, CHR 0xA7, CHR 0xC3, CHR 0xB5] @ ''es'' @ nl"

definition summary_footer :: "string \<Rightarrow> string" where
  "summary_footer link_xlsx =
     nl @ ''Baixe o relat'' @ [CHR 0xC3, CHR 0xB3] @ ''rio completo em Excel aqui:'' @ nl @ link_xlsx"

text \<open>
  \<open>generate_and_send_report(on_demand)\<close>. \<open>to_display\<close> stands for pandas'
  \<open>pd.to_datetime(...).dt.strftime('%d/%m/%Y %H:%M')\<close> on the whole column of stored texts,
  which either raises or gives the column of formatted dates; \<open>host_url\<close> is
  \<open>request.host_url\<close> when the call is made inside a request and \<open>None\<close> when the
  scheduler makes it. The conversion comes before anything is written or sent, so an
  exception in it leaves the world as it was.
\<close>

definition generate_and_send_report ::
  "config \<Rightarrow> (string list \<Rightarrow> py_error + string list) \<Rightarrow> string option \<Rightarrow> bool \<Rightarrow> world
     \<Rightarrow> py_error + world" where
  "generate_and_send_report cfg to_display host_url on_demand w =
     (let df = participations (db_file w) in
      if df = [] then
        Inr (if on_demand then send_message cfg no_records_text w else w)
      else
        (case to_display (map participation_date df) of
           Inl e \<Rightarrow> Inl e
         | Inr column \<Rightarrow>
             let df = map (\<lambda>(r, d). r\<lparr>participation_date := d\<rparr>) (zip df column);
                 summary = report_summary df;
                 w = w\<lparr>reports_dir := True\<rparr>;
                 w = write_file ''reports/relatorio_participacao.csv'' (Csv summary) w;
                 w = write_file ''reports/relatorio_participacao.xlsx'' (Xlsx summary) w;
                 base_url = (case host_url of Some u \<Rightarrow> u
                             | None \<Rightarrow> ''https://SEU_USUARIO.pythonanywhere.com/'');
                 link_xlsx = base_url @ ''reports/relatorio_participacao.xlsx''
             in Inr (send_message cfg
                  (summary_header @ concat (map summary_line summary) @ summary_footer link_xlsx)
                  w)))"

section \<open>The webhook\<close>

text \<open>The form fields of the POST request (each may be missing) and the host URL.\<close>

record request =
  Body :: "string option"
  From :: "string option"
  ProfileName :: "string option"
  host_url :: string

text \<open>
  What the route returns: \<open>str(resp)\<close> for a \<open>MessagingResponse\<close> carrying one message
  (the XML wrapping is Twilio's), or the empty body with status 204.
\<close>

datatype response = Twiml string | NoContent

definition registered_text :: "string \<Rightarrow> string" where
  "registered_text name =
     [CHR 0xE2, CHR 0x9C, CHR 0x85] @ '' Ol'' @ [CHR 0xC3, CHR 0xA1] @ '', '' @ name @
     ''! Sua participa'' @ [CHR 0xC3, CHR 0xA7, CHR 0xC3, CHR 0xA3] @
     ''o foi registrada com sucesso!''"

definition no_history_text :: string where
  "no_history_text =
     ''Voc'' @ [CHR 0xC3, CHR 0xAA] @ '' ainda n'' @ [CHR 0xC3, CHR 0xA3] @
     ''o tem nenhuma participa'' @ [CHR 0xC3, CHR 0xA7, CHR 0xC3, CHR 0xA3] @ ''o registrada.''"

definition history_header :: "string \<Rightarrow> nat \<Rightarrow> string" where
  "history_header name n =
     ''Ol'' @ [CHR 0xC3, CHR 0xA1] @ '', '' @ name @ ''! Voc'' @ [CHR 0xC3, CHR 0xAA] @
     '' participou *'' @ str_nat n @ ''* vez(es).'' @ nl @ nl @ ''*Datas*:'' @ nl"

text \<open>
  The body of the loop of \<open>/meu historico\<close> for one record. A title that is \<open>None\<close> or
  empty is falsy, and then nothing is shown for it.
\<close>

definition history_line :: "string \<times> string option \<Rightarrow> py_error + string" where
  "history_line record =
     (case strptime (fst record) of
        Inl e \<Rightarrow> Inl e
      | Inr dt \<Rightarrow>
          let date_formatted = strftime_dmY dt;
              title_info = (case snd record of
                              Some t \<Rightarrow> if t \<noteq> [] then '' (V'' @ [CHR 0xC3, CHR 0xAD] @ ''deo: '' @ t @ '')''
                                        else []
                            | None \<Rightarrow> [])
          in Inr (''- '' @ date_formatted @ title_info @ nl))"

text \<open>The body of the loop of \<open>/ultimos registros\<close> for one record.\<close>

definition last_line :: "string \<times> string \<times> string option \<Rightarrow> py_error + string" where
  "last_line r =
     (case strptime (fst (snd r)) of
        Inl e \<Rightarrow> Inl e
      | Inr dt \<Rightarrow>
          let date_formatted = strftime_dm_HM dt;
              title_info = (case snd (snd r) of
                              Some t \<Rightarrow> if t \<noteq> [] then '' ('' @ t @ '')'' else []
                            | None \<Rightarrow> [])
          in Inr (''- '' @ fst r @ '' em '' @ date_formatted @ title_info @ nl))"

text \<open>
  A \<open>for\<close> loop that appends one line per record to \<open>response_msg\<close>; the first record
  whose line raises ends the loop with that exception.
\<close>

fun append_lines :: "('a \<Rightarrow> py_error + string) \<Rightarrow> string \<Rightarrow> 'a list \<Rightarrow> py_error + string" where
  "append_lines line response_msg [] = Inr response_msg"
| "append_lines line response_msg (r # rs) =
     (case line r of
        Inl e \<Rightarrow> Inl e
      | Inr l \<Rightarrow> append_lines line (response_msg @ l) rs)"

definition help_text :: string where
  "help_text =
     [CHR 0xF0, CHR 0x9F, CHR 0xA4, CHR 0x96] @ '' *Comandos do Bot de Grava'' @
     [CHR 0xC3, CHR 0xA7, CHR 0xC3, CHR 0xB5] @ ''es*'' @ nl @ nl @
     ''*/participar* - Registra sua participa'' @ [CHR 0xC3, CHR 0xA7, CHR 0xC3, CHR 0xA3] @
     ''o na grava'' @ [CHR 0xC3, CHR 0xA7, CHR 0xC3, CHR 0xA3] @ ''o de hoje.'' @ nl @
     ''_Ex: `Participei: v'' @ [CHR 0xC3, CHR 0xAD] @ ''deo de highlights`_'' @ nl @ nl @
     ''*/meu historico* - Mostra todas as suas participa'' @
     [CHR 0xC3, CHR 0xA7, CHR 0xC3, CHR 0xB5] @ ''es.'' @ nl @ nl @
     ''*/ajuda* - Mostra esta mensagem.''"

definition none_found_text :: string where
  "none_found_text = ''Nenhum registro encontrado.''"

definition last_header :: string where
  "last_header = ''*'' @ [CHR 0xC3, CHR 0x9A] @ ''ltimos 10 Registros*:'' @ nl @ nl"

definition removed_text :: string where
  "removed_text =
     [CHR 0xE2, CHR 0x9C, CHR 0x85] @ '' Seu '' @ [CHR 0xC3, CHR 0xBA] @
     ''ltimo registro de participa'' @ [CHR 0xC3, CHR 0xA7, CHR 0xC3, CHR 0xA3] @
     ''o foi removido. Por favor, registre novamente se necess'' @ [CHR 0xC3, CHR 0xA1] @ ''rio.''"

definition nothing_to_fix_text :: string where
  "nothing_to_fix_text =
     [CHR 0xE2, CHR 0x9D, CHR 0x8C] @ '' Voc'' @ [CHR 0xC3, CHR 0xAA] @ '' n'' @
     [CHR 0xC3, CHR 0xA3] @ ''o possui registros para corrigir.''"

text \<open>The end of the route: a message if \<open>response_msg\<close> is not empty, else status 204.\<close>

definition respond :: "string \<Rightarrow> world \<Rightarrow> py_error + response \<times> world" where
  "respond response_msg w = Inr (if response_msg \<noteq> [] then Twiml response_msg else NoContent, w)"

text \<open>The label of a record command: \<open>video_title\<close> as lines 186 to 188 compute it.\<close>

definition parse_video_title :: "string \<Rightarrow> string option" where
  "parse_video_title incoming_msg =
     (if CHR '':'' \<in> set incoming_msg then Some (strip (after_first CHR '':'' incoming_msg))
      else None)"

text \<open>The first four lines of the route: the trimmed body, the sender, the display name
  (the sender when the channel gives none), and the lower-cased copy of the body.\<close>

definition incoming_msg :: "request \<Rightarrow> string" where
  "incoming_msg req = strip (case Body req of Some b \<Rightarrow> b | None \<Rightarrow> [])"

definition from_number :: "request \<Rightarrow> string" where
  "from_number req = (case From req of Some f \<Rightarrow> f | None \<Rightarrow> [])"

definition sender_name :: "request \<Rightarrow> string" where
  "sender_name req = (case ProfileName req of Some p \<Rightarrow> p | None \<Rightarrow> from_number req)"

definition msg_lower :: "(string \<Rightarrow> string) \<Rightarrow> request \<Rightarrow> string" where
  "msg_lower lower req = lower (incoming_msg req)"

text \<open>
  \<open>whatsapp_webhook\<close>. \<open>lower\<close> is \<open>str.lower\<close>, \<open>to_display\<close> the date conversion of
  the report, and \<open>now\<close> the reading of the clock should the request record a
  participation. An exception that leaves the route is the \<open>Inl\<close> result.
\<close>

definition whatsapp_webhook ::
  "config \<Rightarrow> (string \<Rightarrow> string) \<Rightarrow> (string list \<Rightarrow> py_error + string list) \<Rightarrow> datetime
     \<Rightarrow> request \<Rightarrow> world \<Rightarrow> py_error + response \<times> world" where
  "whatsapp_webhook cfg lower to_display now req w =
     (if startswith_any (msg_lower lower req) [''participei'', ''gravei'', ''/participar''] then
        respond (registered_text (sender_name req))
          (w\<lparr>db_file := add_participation (db_file w) now (from_number req) (sender_name req)
                            (parse_video_title (incoming_msg req))\<rparr>)
      else if msg_lower lower req = ''/meu historico'' then
        (let records = get_user_history (db_file w) (from_number req) in
         if records = [] then respond no_history_text w
         else (case append_lines history_line
                      (history_header (sender_name req) (length records)) records of
                 Inl e \<Rightarrow> Inl e
               | Inr response_msg \<Rightarrow> respond response_msg w))
      else if msg_lower lower req = ''/ajuda'' then respond help_text w
      else if Some (from_number req) = admin_phone_number cfg then
        (if msg_lower lower req = ''/relatorio agora'' then
           (case generate_and_send_report cfg to_display (Some (host_url req)) True w of
              Inl e \<Rightarrow> Inl e
            | Inr w' \<Rightarrow> Inr (NoContent, w'))
         else if msg_lower lower req = ''/ultimos registros'' then
           (let records = get_last_10_records (db_file w) in
            if records = [] then respond none_found_text w
            else (case append_lines last_line last_header records of
                    Inl e \<Rightarrow> Inl e
                  | Inr response_msg \<Rightarrow> respond response_msg w))
         else if startswith (msg_lower lower req) ''/corrigir ultimo'' then
           (let parts = split_ws (msg_lower lower req) in
            if length parts > 2 then respond [] w
            else (case delete_last_user_record (db_file w) (from_number req) of
                    (db', deleted) \<Rightarrow>
                      respond (if deleted then removed_text else nothing_to_fix_text)
                        (w\<lparr>db_file := db'\<rparr>)))
         else respond [] w)
      else respond [] w)"

section \<open>The two orders on rows\<close>

text \<open>
  The order the specification names: timestamp descending, equal timestamps by id
  descending.
\<close>

definition timestamp_desc_id_desc :: "participation \<Rightarrow> participation \<Rightarrow> bool" where
  "timestamp_desc_id_desc a b \<longleftrightarrow>
     participation_date b < participation_date a \<or>
     participation_date a = participation_date b \<and> row_id b < row_id a"

text \<open>The order of the rows of a query: timestamp descending, equal timestamps in the order
  of the scan, which is id ascending.\<close>

definition timestamp_desc_id_asc :: "participation \<Rightarrow> participation \<Rightarrow> bool" where
  "timestamp_desc_id_asc a b \<longleftrightarrow>
     participation_date b < participation_date a \<or>
     participation_date a = participation_date b \<and> row_id a < row_id b"

text \<open>\<open>first_in ord r rows\<close>: \<open>r\<close> is among \<open>rows\<close> and comes before every other of them in
  the order \<open>ord\<close>.\<close>

definition first_in ::
  "(participation \<Rightarrow> participation \<Rightarrow> bool) \<Rightarrow> participation \<Rightarrow> participation list \<Rightarrow> bool" where
  "first_in ord r rows \<longleftrightarrow> r \<in> set rows \<and> list_all (\<lambda>x. x = r \<or> ord r x) rows"

text \<open>The records of one sender, in table order.\<close>

definition rows_of :: "database \<Rightarrow> string \<Rightarrow> participation list" where
  "rows_of db number = filter (\<lambda>r. whatsapp_number r = number) (participations db)"

section \<open>Example ledgers\<close>

text \<open>
  Three readings of the clock on the night the summer time ends: \<open>clock_late\<close> before the
  clock is set back, \<open>clock_early\<close> after it, and \<open>clock_full_second\<close>, a reading whose
  microsecond field is zero.
\<close>

definition clock_late :: datetime where
  "clock_late = \<lparr>year = 2024, month = 11, day = 3, hour = 1, minute = 59, second = 59,
                 microsecond = 500000\<rparr>"

definition clock_early :: datetime where
  "clock_early = \<lparr>year = 2024, month = 11, day = 3, hour = 1, minute = 0, second = 0,
                  microsecond = 200000\<rparr>"

definition clock_full_second :: datetime where
  "clock_full_second = \<lparr>year = 2024, month = 11, day = 3, hour = 10, minute = 0, second = 0,
                        microsecond = 0\<rparr>"

text \<open>A ledger with two records of one sender and one of another.\<close>

definition ledger_three :: database where
  "ledger_three =
     add_participation
       (add_participation
          (add_participation empty_db clock_early ''whatsapp:+1'' ''Ana'' (Some ''x''))
          clock_late ''whatsapp:+1'' ''Ana'' None)
       clock_late ''whatsapp:+2'' ''Bia'' None"

text \<open>One record, stored before the clock was set back.\<close>

definition ledger_one :: database where
  "ledger_one = add_participation empty_db clock_late ''whatsapp:+1'' ''Ana'' (Some ''x'')"

text \<open>Two records of one sender stored at the same reading of the clock.\<close>

definition ledger_tie :: database where
  "ledger_tie =
     add_participation
       (add_participation empty_db clock_late ''whatsapp:+1'' ''Ana'' (Some ''x''))
       clock_late ''whatsapp:+1'' ''Ana'' (Some ''y'')"

text \<open>One record of the administrator, stored on a full second.\<close>

definition ledger_full_second :: database where
  "ledger_full_second =
     add_participation empty_db clock_full_second ''whatsapp:+9'' ''Admin'' None"

definition example_config :: config where
  "example_config =
     \<lparr>twilio_phone_number = Some ''whatsapp:+0'', admin_phone_number = Some ''whatsapp:+9''\<rparr>"

definition world_of :: "database \<Rightarrow> world" where
  "world_of d = \<lparr>db_file = d, outbox = [], reports_dir = False, files = []\<rparr>"

definition example_request :: "string \<Rightarrow> string \<Rightarrow> request" where
  "example_request sender text =
     \<lparr>Body = Some text, From = Some sender, ProfileName = Some ''Ana'',
      host_url = ''https://bot.example/''\<rparr>"

text \<open>A request with no form field at all.\<close>

definition empty_request :: request where
  "empty_request = \<lparr>Body = None, From = None, ProfileName = None, host_url = ''https://bot.example/''\<rparr>"

text \<open>
  Message bodies with whitespace beyond ASCII: U+00A0, the no-break space, is the bytes
  C2 A0, and U+2003, the em space, the bytes E2 80 83.
\<close>

definition body_shouted :: string where
  "body_shouted =
     ''  PARTICIPEI:'' @ [CHR 0xC2, CHR 0xA0] @ ''clipe: final '' @ [CHR 0xE2, CHR 0x80, CHR 0x83]"

definition body_blank :: string where
  "body_blank = [CHR 0xC2, CHR 0xA0, CHR 0xE2, CHR 0x80, CHR 0x83]"

definition body_help :: string where
  "body_help = [CHR 0xC2, CHR 0xA0] @ ''/ajuda''"

definition body_fix_other :: string where
  "body_fix_other = ''/Corrigir Ultimo'' @ [CHR 0xE2, CHR 0x80, CHR 0x83] @ ''whatsapp:+1''"

definition body_fix_own :: string where
  "body_fix_own = ''/corrigir ultimo '' @ [CHR 0xC2, CHR 0xA0]"

definition body_empty_label :: string where
  "body_empty_label = ''Gravei:'' @ [CHR 0xC2, CHR 0xA0] @ '' ''"

section \<open>The sorted queries\<close>

lemmas example_defs =
  ledger_three_def ledger_one_def ledger_tie_def ledger_full_second_def
  add_participation_def empty_db_def isoformat_def
  clock_late_def clock_early_def clock_full_second_def
  pad2_def pad4_def pad6_def digit_char_def

lemma set_insort_desc: "set (insort_desc r xs) = insert r (set xs)"
  by (induction xs) auto

lemma length_insort_desc: "length (insort_desc r xs) = Suc (length xs)"
  by (induction xs) auto

lemma set_order_by_date_desc: "set (order_by_date_desc rs) = set rs"
  by (induction rs) (auto simp: order_by_date_desc_def set_insort_desc)

lemma length_order_by_date_desc: "length (order_by_date_desc rs) = length rs"
  by (induction rs) (auto simp: order_by_date_desc_def length_insort_desc)

lemma order_by_date_desc_Nil: "order_by_date_desc rs = [] \<longleftrightarrow> rs = []"
  using length_order_by_date_desc [of rs] by (metis length_0_conv)

lemma sorted_insort_desc:
  assumes "sorted_wrt (\<lambda>a b. participation_date b \<le> participation_date a) xs"
  shows "sorted_wrt (\<lambda>a b. participation_date b \<le> participation_date a) (insort_desc r xs)"
  using assms
proof (induction xs)
  case Nil
  then show ?case by simp
next
  case (Cons x xs)
  show ?case
  proof (cases "participation_date x \<le> participation_date r")
    case True
    with Cons.prems show ?thesis by auto
  next
    case False
    with Cons show ?thesis by (auto simp: set_insort_desc)
  qed
qed

lemma sorted_order_by_date_desc:
  "sorted_wrt (\<lambda>a b. participation_date b \<le> participation_date a) (order_by_date_desc rs)"
  by (induction rs) (simp_all add: order_by_date_desc_def sorted_insort_desc)

lemma select_user_rows_Nil:
  "select_user_rows db number = [] \<longleftrightarrow>
     filter (\<lambda>r. whatsapp_number r = number) (participations db) = []"
  by (simp add: select_user_rows_def order_by_date_desc_Nil)

text \<open>The first row of the sender's history is one of the sender's rows, and none of them
  has a later timestamp.\<close>

lemma select_user_rows_head:
  assumes "select_user_rows db number = r # rest"
  shows "r \<in> set (participations db) \<and> whatsapp_number r = number \<and>
         (\<forall>x\<in>set (participations db). whatsapp_number x = number \<longrightarrow>
            participation_date x \<le> participation_date r)"
proof -
  let ?sel = "filter (\<lambda>r. whatsapp_number r = number) (participations db)"
  have "set (select_user_rows db number) = set ?sel"
    by (simp add: select_user_rows_def set_order_by_date_desc)
  with assms have s: "set (r # rest) = set ?sel"
    by simp
  have "sorted_wrt (\<lambda>a b. participation_date b \<le> participation_date a) (r # rest)"
    using assms sorted_order_by_date_desc [of ?sel] by (simp add: select_user_rows_def)
  then have "\<forall>x\<in>set (r # rest). participation_date x \<le> participation_date r"
    by simp
  with s have le: "\<forall>x\<in>set ?sel. participation_date x \<le> participation_date r"
    by (simp only:)
  have "r \<in> set (r # rest)" by simp
  with s have "r \<in> set ?sel" by (simp only:)
  with le show ?thesis by simp
qed

section \<open>The order of the history and of the listing\<close>

lemma insort_desc_id_asc:
  assumes "sorted_wrt timestamp_desc_id_asc xs" and "\<forall>x\<in>set xs. row_id r < row_id x"
  shows "sorted_wrt timestamp_desc_id_asc (insort_desc r xs)"
  using assms
proof (induction xs)
  case Nil
  then show ?case by simp
next
  case (Cons x xs)
  show ?case
  proof (cases "participation_date x \<le> participation_date r")
    case True
    have "timestamp_desc_id_asc r z" if "z \<in> set (x # xs)" for z
    proof -
      have "participation_date z \<le> participation_date x"
        using that Cons.prems(1) by (auto simp: timestamp_desc_id_asc_def)
      with True have "participation_date z \<le> participation_date r" by simp
      moreover have "row_id r < row_id z" using that Cons.prems(2) by auto
      ultimately show ?thesis by (auto simp: timestamp_desc_id_asc_def)
    qed
    with True Cons.prems(1) show ?thesis by simp
  next
    case False
    then have "timestamp_desc_id_asc x r" by (simp add: timestamp_desc_id_asc_def not_le)
    with False Cons show ?thesis by (auto simp: set_insort_desc)
  qed
qed

lemma order_by_date_desc_id_asc:
  "sorted_wrt (<) (map row_id rs) \<Longrightarrow> sorted_wrt timestamp_desc_id_asc (order_by_date_desc rs)"
proof (induction rs)
  case Nil
  then show ?case by (simp add: order_by_date_desc_def)
next
  case (Cons r rs)
  then have "sorted_wrt timestamp_desc_id_asc (order_by_date_desc rs)"
    and "\<forall>x\<in>set (order_by_date_desc rs). row_id r < row_id x"
    by (auto simp: set_order_by_date_desc)
  then have "sorted_wrt timestamp_desc_id_asc (insort_desc r (order_by_date_desc rs))"
    by (rule insort_desc_id_asc)
  then show ?case by (simp add: order_by_date_desc_def)
qed

lemma sorted_ids_filter:
  "sorted_wrt (<) (map row_id rs) \<Longrightarrow> sorted_wrt (<) (map row_id (filter P rs))"
  by (induction rs) auto

text \<open>
  C2, as the code has it. On a table whose ids ascend (the rows in the order they were
  inserted), the rows behind \<open>get_user_history\<close> and behind \<open>get_last_10_records\<close> are in
  timestamp-descending order, and two rows with equal timestamps come in id-ascending
  order: the queries sort by the timestamp alone and keep the scan order among equals.
\<close>

theorem history_and_listing_order:
  assumes "sorted_wrt (<) (map row_id (participations db))"
  shows "get_user_history db number =
           map (\<lambda>r. (participation_date r, video_title r)) (select_user_rows db number) \<and>
         sorted_wrt timestamp_desc_id_asc (select_user_rows db number) \<and>
         get_last_10_records db =
           map (\<lambda>r. (profile_name r, participation_date r, video_title r)) (select_last_rows db 10) \<and>
         sorted_wrt timestamp_desc_id_asc (select_last_rows db 10)"
proof -
  have "sorted_wrt timestamp_desc_id_asc (select_user_rows db number)"
    unfolding select_user_rows_def
    by (rule order_by_date_desc_id_asc) (rule sorted_ids_filter [OF assms])
  moreover have "sorted_wrt timestamp_desc_id_asc (select_last_rows db 10)"
    unfolding select_last_rows_def
    by (rule sorted_wrt_take) (rule order_by_date_desc_id_asc [OF assms])
  ultimately show ?thesis
    by (simp add: get_user_history_def get_last_10_records_def)
qed

theorem history_and_listing_order_witness:
  "sorted_wrt (<) (map row_id (participations ledger_tie)) \<and>
   sorted_wrt timestamp_desc_id_asc (select_user_rows ledger_tie ''whatsapp:+1'') \<and>
   sorted_wrt timestamp_desc_id_asc (select_last_rows ledger_tie 10) \<and>
   map row_id (select_user_rows ledger_tie ''whatsapp:+1'') = [1, 2]"
proof -
  have h: "sorted_wrt (<) (map row_id (participations ledger_tie))"
    by (simp add: example_defs)
  have "map row_id (select_user_rows ledger_tie ''whatsapp:+1'') = [1, 2]"
    by (simp add: example_defs select_user_rows_def order_by_date_desc_def)
  with h history_and_listing_order [OF h, of "''whatsapp:+1''"] show ?thesis
    by simp
qed

text \<open>
  Two records written at one reading of the clock come back in the order of their ids,
  the older first, in the history and in the listing: not in id-descending order.
\<close>

theorem history_ties_not_id_desc:
  "get_user_history ledger_tie ''whatsapp:+1'' =
     [(''2024-11-03 01:59:59.500000'', Some ''x''), (''2024-11-03 01:59:59.500000'', Some ''y'')] \<and>
   map row_id (select_user_rows ledger_tie ''whatsapp:+1'') = [1, 2] \<and>
   \<not> sorted_wrt timestamp_desc_id_desc (select_user_rows ledger_tie ''whatsapp:+1'') \<and>
   get_last_10_records ledger_tie =
     [(''Ana'', ''2024-11-03 01:59:59.500000'', Some ''x''),
      (''Ana'', ''2024-11-03 01:59:59.500000'', Some ''y'')] \<and>
   \<not> sorted_wrt timestamp_desc_id_desc (select_last_rows ledger_tie 10)"
  by (simp add: example_defs get_user_history_def get_last_10_records_def select_user_rows_def
        select_last_rows_def order_by_date_desc_def timestamp_desc_id_desc_def)

section \<open>Appending and then reading the history\<close>

lemma order_by_date_desc_snoc:
  assumes "\<forall>x\<in>set rs. participation_date x < participation_date n"
  shows "order_by_date_desc (rs @ [n]) = n # order_by_date_desc rs"
  using assms
proof (induction rs)
  case Nil
  then show ?case by (simp add: order_by_date_desc_def)
next
  case (Cons r rs)
  then have "order_by_date_desc (rs @ [n]) = n # order_by_date_desc rs"
    and "\<not> participation_date n \<le> participation_date r"
    by auto
  then show ?case by (simp add: order_by_date_desc_def)
qed

text \<open>
  C3, as the code has it. When the reading of the clock, as stored, is later than the
  timestamp of every record the sender already has, \<open>get_user_history\<close> right after
  \<open>add_participation\<close> returns the new record first, followed by the history as it was.
\<close>

theorem append_then_history_first:
  assumes "\<forall>r\<in>set (participations db). whatsapp_number r = number \<longrightarrow>
             participation_date r < isoformat now"
  shows "get_user_history (add_participation db now number name title) number =
           (isoformat now, title) # get_user_history db number"
proof -
  let ?n = "\<lparr>row_id = Suc (sqlite_sequence db), whatsapp_number = number, profile_name = name,
             participation_date = isoformat now, video_title = title\<rparr>"
  let ?sel = "filter (\<lambda>r. whatsapp_number r = number) (participations db)"
  have "\<forall>x\<in>set ?sel. participation_date x < participation_date ?n"
    using assms by simp
  then have "order_by_date_desc (?sel @ [?n]) = ?n # order_by_date_desc ?sel"
    by (rule order_by_date_desc_snoc)
  then show ?thesis
    by (simp add: get_user_history_def select_user_rows_def add_participation_def)
qed

theorem append_then_history_first_witness:
  "get_user_history (add_participation ledger_three clock_full_second ''whatsapp:+2'' ''Bia'' (Some ''z''))
     ''whatsapp:+2'' =
     [(''2024-11-03 10:00:00'', Some ''z''), (''2024-11-03 01:59:59.500000'', None)]"
proof -
  have h: "\<forall>r\<in>set (participations ledger_three). whatsapp_number r = ''whatsapp:+2'' \<longrightarrow>
      participation_date r < isoformat clock_full_second"
    by (simp add: example_defs)
  have "get_user_history ledger_three ''whatsapp:+2'' = [(''2024-11-03 01:59:59.500000'', None)]"
    by (simp add: example_defs get_user_history_def select_user_rows_def order_by_date_desc_def)
  moreover have "isoformat clock_full_second = ''2024-11-03 10:00:00''"
    by (simp add: example_defs)
  ultimately show ?thesis
    using append_then_history_first [OF h, of "''Bia''" "Some ''z''"] by simp
qed

text \<open>
  A record appended after the clock was set back an hour is not the first of the
  sender's history: the record stored before the change still is. Nor is a record
  appended at the very reading of the clock at which the sender's last record was stored.
\<close>

theorem append_then_history_not_first:
  "get_user_history (add_participation ledger_one clock_early ''whatsapp:+1'' ''Ana'' (Some ''y''))
     ''whatsapp:+1'' =
     [(''2024-11-03 01:59:59.500000'', Some ''x''), (''2024-11-03 01:00:00.200000'', Some ''y'')] \<and>
   hd (get_user_history (add_participation ledger_one clock_early ''whatsapp:+1'' ''Ana'' (Some ''y''))
         ''whatsapp:+1'') \<noteq> (isoformat clock_early, Some ''y'') \<and>
   hd (get_user_history (add_participation ledger_one clock_late ''whatsapp:+1'' ''Ana'' (Some ''y''))
         ''whatsapp:+1'') \<noteq> (isoformat clock_late, Some ''y'')"
  by (simp add: example_defs get_user_history_def select_user_rows_def order_by_date_desc_def)

section \<open>Deleting the last record of a sender\<close>

text \<open>With ids that are unique, \<open>DELETE ... WHERE id = ?\<close> removes the one row it names.\<close>

lemma filter_id_distinct:
  "distinct (map row_id (xs :: participation list)) \<Longrightarrow> r \<in> set xs \<Longrightarrow>
     filter (\<lambda>x. row_id x \<noteq> row_id r) xs = remove1 r xs"
proof (induction xs)
  case Nil
  then show ?case by simp
next
  case (Cons x xs)
  show ?case
  proof (cases "x = r")
    case True
    with Cons.prems(1) have "row_id r \<notin> row_id ` set xs" by simp
    then have "\<forall>y\<in>set xs. row_id y \<noteq> row_id r" by (metis image_eqI)
    then have "filter (\<lambda>x. row_id x \<noteq> row_id r) xs = xs" by (simp add: filter_id_conv)
    with True show ?thesis by simp
  next
    case False
    with Cons.prems have "r \<in> set xs" and "row_id x \<noteq> row_id r" by auto
    with Cons show ?thesis using False by simp
  qed
qed

lemma length_filter_remove1:
  "r \<in> set xs \<Longrightarrow> P r \<Longrightarrow> Suc (length (filter P (remove1 r xs))) = length (filter P xs)"
  by (induction xs) auto

lemma filter_remove1_other:
  "\<not> Q r \<Longrightarrow> filter Q (remove1 r xs) = filter Q xs"
  by (induction xs) auto

text \<open>The row the query of \<open>delete_last_user_record\<close> finds is the first of the sender's rows
  in the order of the queries.\<close>

lemma select_user_rows_first:
  assumes "sorted_wrt (<) (map row_id (participations db))"
    and "select_user_rows db number = r # rest"
  shows "first_in timestamp_desc_id_asc r (rows_of db number)"
proof -
  have "sorted_wrt timestamp_desc_id_asc (select_user_rows db number)"
    unfolding select_user_rows_def
    by (rule order_by_date_desc_id_asc) (rule sorted_ids_filter [OF assms(1)])
  with assms(2) have after: "\<forall>x\<in>set rest. timestamp_desc_id_asc r x"
    by simp
  have "set (select_user_rows db number) = set (rows_of db number)"
    by (simp add: select_user_rows_def rows_of_def set_order_by_date_desc)
  with assms(2) have s: "set (rows_of db number) = set (r # rest)"
    by simp
  have "r \<in> set (r # rest)" by simp
  with s have mem: "r \<in> set (rows_of db number)" by (simp only:)
  have "x = r \<or> timestamp_desc_id_asc r x" if "x \<in> set (rows_of db number)" for x
  proof -
    from that s have "x \<in> set (r # rest)" by (simp only:)
    with after show ?thesis by auto
  qed
  with mem show ?thesis
    by (simp add: first_in_def list_all_iff)
qed

text \<open>
  C1, as the code has it. On a table whose ids ascend, \<open>delete_last_user_record\<close> for a
  sender without records returns \<open>False\<close> and the database it was given. For a sender with
  records it returns \<open>True\<close> and removes exactly one row \<open>r\<close> of that sender: the one with the
  latest timestamp and, where several share that timestamp, the lowest id. The sender then
  has one record less, and the rows of every other sender are what they were, in the same
  order.
\<close>

theorem delete_last_user_record_first_scanned:
  assumes "sorted_wrt (<) (map row_id (participations db))"
  shows "if rows_of db number = []
         then delete_last_user_record db number = (db, False)
         else \<exists>r. first_in timestamp_desc_id_asc r (rows_of db number) \<and>
                delete_last_user_record db number =
                  (db\<lparr>participations := remove1 r (participations db)\<rparr>, True) \<and>
                Suc (length (rows_of (fst (delete_last_user_record db number)) number)) =
                  length (rows_of db number) \<and>
                filter (\<lambda>x. whatsapp_number x \<noteq> number)
                  (participations (fst (delete_last_user_record db number))) =
                  filter (\<lambda>x. whatsapp_number x \<noteq> number) (participations db)"
proof (cases "select_user_rows db number")
  case Nil
  then have "rows_of db number = []"
    by (simp add: select_user_rows_Nil rows_of_def)
  with Nil show ?thesis
    by (simp add: delete_last_user_record_def)
next
  case (Cons r rest)
  note f = select_user_rows_first [OF assms Cons]
  then have mem: "r \<in> set (participations db)" and num: "whatsapp_number r = number"
    by (simp_all add: first_in_def rows_of_def)
  have ne: "rows_of db number \<noteq> []"
    using f by (auto simp: first_in_def)
  have d: "distinct (map row_id (participations db))"
    using assms by (simp add: strict_sorted_iff)
  have del: "delete_last_user_record db number =
      (db\<lparr>participations := remove1 r (participations db)\<rparr>, True)"
    using Cons mem d by (simp add: delete_last_user_record_def filter_id_distinct)
  have cnt: "Suc (length (rows_of (db\<lparr>participations := remove1 r (participations db)\<rparr>) number)) =
      length (rows_of db number)"
    using mem num by (simp add: rows_of_def length_filter_remove1)
  have oth: "filter (\<lambda>x. whatsapp_number x \<noteq> number) (remove1 r (participations db)) =
      filter (\<lambda>x. whatsapp_number x \<noteq> number) (participations db)"
    using num by (simp add: filter_remove1_other)
  from f del cnt oth ne show ?thesis
    by (simp only: if_False fst_conv) (rule exI [of _ r], simp)
qed

theorem delete_last_user_record_first_scanned_witness:
  "rows_of ledger_three ''whatsapp:+1'' \<noteq> [] \<and>
   (\<exists>r. first_in timestamp_desc_id_asc r (rows_of ledger_three ''whatsapp:+1'') \<and>
      delete_last_user_record ledger_three ''whatsapp:+1'' =
        (ledger_three\<lparr>participations := remove1 r (participations ledger_three)\<rparr>, True) \<and>
      Suc (length (rows_of (fst (delete_last_user_record ledger_three ''whatsapp:+1''))
             ''whatsapp:+1'')) = 2)"
proof -
  have s: "sorted_wrt (<) (map row_id (participations ledger_three))"
    by (simp add: example_defs)
  have ne: "rows_of ledger_three ''whatsapp:+1'' \<noteq> []"
    by (simp add: example_defs rows_of_def)
  have l: "length (rows_of ledger_three ''whatsapp:+1'') = 2"
    by (simp add: example_defs rows_of_def)
  from delete_last_user_record_first_scanned [OF s, of "''whatsapp:+1''"] ne l
  have "\<exists>r. first_in timestamp_desc_id_asc r (rows_of ledger_three ''whatsapp:+1'') \<and>
      delete_last_user_record ledger_three ''whatsapp:+1'' =
        (ledger_three\<lparr>participations := remove1 r (participations ledger_three)\<rparr>, True) \<and>
      Suc (length (rows_of (fst (delete_last_user_record ledger_three ''whatsapp:+1''))
             ''whatsapp:+1'')) = 2"
    by (simp only: if_False) blast
  with ne show ?thesis by blast
qed

text \<open>
  Of two records of a sender written at one reading of the clock, the second is the
  newest in the order of the specification; \<open>delete_last_user_record\<close> removes the first
  and leaves the second.
\<close>

theorem delete_last_user_record_tie_keeps_newest:
  "map row_id (rows_of ledger_tie ''whatsapp:+1'') = [1, 2] \<and>
   first_in timestamp_desc_id_desc
     \<lparr>row_id = 2, whatsapp_number = ''whatsapp:+1'', profile_name = ''Ana'',
      participation_date = ''2024-11-03 01:59:59.500000'', video_title = Some ''y''\<rparr>
     (rows_of ledger_tie ''whatsapp:+1'') \<and>
   delete_last_user_record ledger_tie ''whatsapp:+1'' =
     (\<lparr>participations =
         [\<lparr>row_id = 2, whatsapp_number = ''whatsapp:+1'', profile_name = ''Ana'',
           participation_date = ''2024-11-03 01:59:59.500000'', video_title = Some ''y''\<rparr>],
       sqlite_sequence = 2\<rparr>, True)"
  by (simp add: example_defs rows_of_def first_in_def timestamp_desc_id_desc_def
        delete_last_user_record_def select_user_rows_def order_by_date_desc_def)

section \<open>The ledgers the program can reach\<close>

text \<open>
  The table starts empty and changes only through \<open>add_participation\<close> and
  \<open>delete_last_user_record\<close>; both keep the ids ascending and below the counter, so the
  ids of every ledger the program reaches are ascending and pairwise different.
\<close>

lemma db_ok_empty: "db_ok empty_db"
  by (simp add: db_ok_def empty_db_def)

lemma db_ok_add_participation:
  assumes "db_ok db"
  shows "db_ok (add_participation db now number name title)"
proof -
  from assms have s: "sorted_wrt (<) (map row_id (participations db))"
    and b: "\<forall>r\<in>set (participations db). row_id r \<le> sqlite_sequence db"
    by (simp_all add: db_ok_def list_all_iff)
  from b have "\<forall>r\<in>set (participations db). row_id r < Suc (sqlite_sequence db)"
    by (simp add: less_Suc_eq_le)
  with s have "sorted_wrt (<) (map row_id (participations db) @ [Suc (sqlite_sequence db)])"
    by (simp add: sorted_wrt_append)
  moreover from b have "\<forall>r\<in>set (participations db). row_id r \<le> Suc (sqlite_sequence db)"
    by (simp add: le_Suc_eq)
  ultimately show ?thesis
    by (simp add: db_ok_def add_participation_def list_all_iff)
qed

lemma db_ok_delete_last_user_record:
  assumes "db_ok db"
  shows "db_ok (fst (delete_last_user_record db number))"
  using assms
  by (auto simp: db_ok_def delete_last_user_record_def list_all_iff sorted_ids_filter
      split: list.splits)

lemma db_ok_ids:
  assumes "db_ok db"
  shows "sorted_wrt (<) (map row_id (participations db))"
    and "distinct (map row_id (participations db))"
proof -
  show s: "sorted_wrt (<) (map row_id (participations db))"
    using assms by (simp add: db_ok_def)
  then show "distinct (map row_id (participations db))"
    by (simp add: strict_sorted_iff)
qed

section \<open>The groups of the report\<close>

lemma sum_group_sizes:
  assumes "distinct ks" and "f ` set xs \<subseteq> set ks"
  shows "(\<Sum>k\<leftarrow>ks. length (filter (\<lambda>x. f x = k) xs)) = length xs"
  using assms(2)
proof (induction xs)
  case Nil
  then show ?case by simp
next
  case (Cons x xs)
  then have IH: "(\<Sum>k\<leftarrow>ks. length (filter (\<lambda>x. f x = k) xs)) = length xs"
    and mem: "f x \<in> set ks"
    by auto
  have "(\<Sum>k\<leftarrow>ks. length (filter (\<lambda>y. f y = k) (x # xs))) =
        (\<Sum>k\<leftarrow>ks. (if f x = k then 1 else 0) + length (filter (\<lambda>y. f y = k) xs))"
    by (rule arg_cong [where f = sum_list]) (rule map_cong, auto)
  also have "\<dots> = (\<Sum>k\<leftarrow>ks. if f x = k then 1 else 0) + length xs"
    by (simp add: sum_list_addf IH)
  also have "(\<Sum>k\<leftarrow>ks. if f x = k then 1 else 0) = (1::nat)"
    using assms(1) mem by (induction ks) auto
  finally show ?case by simp
qed

lemma report_summary_keys:
  "map group_profile_name (report_summary df) = sort (remdups (map profile_name df))"
  by (simp add: report_summary_def Let_def comp_def)

lemma report_summary_counts:
  "map total_participations (report_summary df) =
     map (\<lambda>k. length (filter (\<lambda>r. profile_name r = k) df)) (sort (remdups (map profile_name df)))"
  by (simp add: report_summary_def Let_def comp_def)

text \<open>
  C4. The rows of \<open>report_summary\<close> carry pairwise different keys, and the keys are exactly
  the profile names that occur in the frame. The count of a row is the number of records
  with the row's key, every record has exactly one row keyed by its profile name, and the
  counts add up to the number of records.
\<close>

theorem report_summary_partition:
  "distinct (map group_profile_name (report_summary df)) \<and>
   set (map group_profile_name (report_summary df)) = set (map profile_name df) \<and>
   (\<forall>g\<in>set (report_summary df).
      total_participations g =
        length (filter (\<lambda>r. profile_name r = group_profile_name g) df)) \<and>
   (\<forall>r\<in>set df. \<exists>!g. g \<in> set (report_summary df) \<and> group_profile_name g = profile_name r) \<and>
   sum_list (map total_participations (report_summary df)) = length df"
proof -
  let ?ks = "sort (remdups (map profile_name df))"
  have d: "distinct (map group_profile_name (report_summary df))"
    by (simp add: report_summary_keys)
  have k: "set (map group_profile_name (report_summary df)) = set (map profile_name df)"
    by (simp add: report_summary_keys)
  have c: "\<forall>g\<in>set (report_summary df).
      total_participations g =
        length (filter (\<lambda>r. profile_name r = group_profile_name g) df)"
    by (auto simp: report_summary_def Let_def)
  have u: "\<exists>!g. g \<in> set (report_summary df) \<and> group_profile_name g = profile_name r"
    if "r \<in> set df" for r
  proof -
    from that have "profile_name r \<in> set (map group_profile_name (report_summary df))"
      unfolding k by simp
    then obtain g where g: "g \<in> set (report_summary df)" "group_profile_name g = profile_name r"
      by auto
    from d have "inj_on group_profile_name (set (report_summary df))"
      by (simp add: distinct_map)
    with g show ?thesis
      by (metis inj_onD)
  qed
  have "distinct ?ks" and "profile_name ` set df \<subseteq> set ?ks"
    by simp_all
  then have "(\<Sum>k\<leftarrow>?ks. length (filter (\<lambda>r. profile_name r = k) df)) = length df"
    by (rule sum_group_sizes)
  then have s: "sum_list (map total_participations (report_summary df)) = length df"
    by (simp add: report_summary_counts)
  from d k c u s show ?thesis by blast
qed

theorem report_summary_partition_witness:
  "map group_profile_name (report_summary (participations ledger_three)) = [''Ana'', ''Bia''] \<and>
   map total_participations (report_summary (participations ledger_three)) = [2, 1] \<and>
   sum_list (map total_participations (report_summary (participations ledger_three))) = 3"
proof -
  have "length (participations ledger_three) = 3"
    by (simp add: example_defs)
  moreover have "map group_profile_name (report_summary (participations ledger_three)) = [''Ana'', ''Bia'']"
    by (simp add: report_summary_keys) (simp add: example_defs)
  moreover have "map total_participations (report_summary (participations ledger_three)) = [2, 1]"
    by (simp add: report_summary_counts) (simp add: example_defs)
  ultimately show ?thesis
    using report_summary_partition [of "participations ledger_three"] by simp
qed

section \<open>The report on an empty ledger\<close>

text \<open>
  C6. With no record in the table, the report run on demand returns after sending one
  message, the "no records" text, to the administrator, and changes nothing else; the
  scheduled run returns and changes nothing at all. In both cases the files are the
  files there were.
\<close>

theorem report_on_empty_ledger:
  assumes "participations (db_file w) = []"
  shows "generate_and_send_report cfg to_display host True w =
           Inr (w\<lparr>outbox := outbox w @
                  [\<lparr>msg_from = twilio_phone_number cfg, msg_body = no_records_text,
                    msg_to = admin_phone_number cfg\<rparr>]\<rparr>) \<and>
         map_sum id files (generate_and_send_report cfg to_display host True w) = Inr (files w) \<and>
         generate_and_send_report cfg to_display host False w = Inr w"
  using assms by (simp add: generate_and_send_report_def send_message_def)

theorem report_on_empty_ledger_witness:
  "map_sum id outbox
     (generate_and_send_report example_config Inr (Some ''https://bot.example/'') True
        (world_of empty_db)) =
     Inr [\<lparr>msg_from = Some ''whatsapp:+0'', msg_body = no_records_text,
           msg_to = Some ''whatsapp:+9''\<rparr>] \<and>
   map_sum id files
     (generate_and_send_report example_config Inr (Some ''https://bot.example/'') True
        (world_of empty_db)) = Inr [] \<and>
   generate_and_send_report example_config Inr None False (world_of empty_db) =
     Inr (world_of empty_db)"
proof -
  have h: "participations (db_file (world_of empty_db)) = []"
    by (simp add: world_of_def empty_db_def)
  show ?thesis
    using report_on_empty_ledger [OF h, of example_config Inr "Some ''https://bot.example/''"]
      report_on_empty_ledger [OF h, of example_config Inr None]
    by (simp add: world_of_def example_config_def)
qed

section \<open>The record command and its label\<close>

lemma registered_text_not_empty: "registered_text name \<noteq> []"
  by (simp add: registered_text_def)

lemma after_first_split: "c \<notin> set pre \<Longrightarrow> after_first c (pre @ c # post) = post"
  by (induction pre) (auto simp: after_first_def)

lemma record_command:
  assumes "startswith_any (msg_lower lower req) [''participei'', ''gravei'', ''/participar'']"
  shows "whatsapp_webhook cfg lower to_display now req w =
           Inr (Twiml (registered_text (sender_name req)),
                w\<lparr>db_file :=
                    \<lparr>participations = participations (db_file w) @
                       [\<lparr>row_id = Suc (sqlite_sequence (db_file w)),
                         whatsapp_number = from_number req, profile_name = sender_name req,
                         participation_date = isoformat now,
                         video_title = parse_video_title (incoming_msg req)\<rparr>],
                     sqlite_sequence = Suc (sqlite_sequence (db_file w))\<rparr>\<rparr>)"
  using assms
  by (simp add: whatsapp_webhook_def respond_def registered_text_not_empty add_participation_def)

text \<open>
  C5. A message whose lower-cased text starts with a record trigger is answered with the
  confirmation and appends one record to the table, with the next id, the sender, the
  display name and the reading of the clock. The label of that record is absent when the
  trimmed text has no colon; when the text is \<open>pre\<close>, a colon, \<open>post\<close>, with no colon in
  \<open>pre\<close>, the label is \<open>post\<close> trimmed.
\<close>

theorem record_command_label:
  assumes "startswith_any (msg_lower lower req) [''participei'', ''gravei'', ''/participar'']"
  shows "\<exists>label.
           whatsapp_webhook cfg lower to_display now req w =
             Inr (Twiml (registered_text (sender_name req)),
                  w\<lparr>db_file :=
                      \<lparr>participations = participations (db_file w) @
                         [\<lparr>row_id = Suc (sqlite_sequence (db_file w)),
                           whatsapp_number = from_number req, profile_name = sender_name req,
                           participation_date = isoformat now, video_title = label\<rparr>],
                       sqlite_sequence = Suc (sqlite_sequence (db_file w))\<rparr>\<rparr>) \<and>
           (CHR '':'' \<notin> set (incoming_msg req) \<longrightarrow> label = None) \<and>
           (\<forall>pre post. incoming_msg req = pre @ CHR '':'' # post \<and> CHR '':'' \<notin> set pre \<longrightarrow>
              label = Some (strip post))"
proof (intro exI conjI allI impI)
  show "whatsapp_webhook cfg lower to_display now req w =
          Inr (Twiml (registered_text (sender_name req)),
               w\<lparr>db_file :=
                   \<lparr>participations = participations (db_file w) @
                      [\<lparr>row_id = Suc (sqlite_sequence (db_file w)),
                        whatsapp_number = from_number req, profile_name = sender_name req,
                        participation_date = isoformat now,
                        video_title = parse_video_title (incoming_msg req)\<rparr>],
                    sqlite_sequence = Suc (sqlite_sequence (db_file w))\<rparr>\<rparr>)"
    using assms by (rule record_command)
next
  assume "CHR '':'' \<notin> set (incoming_msg req)"
  then show "parse_video_title (incoming_msg req) = None"
    by (simp add: parse_video_title_def)
next
  fix pre post
  assume "incoming_msg req = pre @ CHR '':'' # post \<and> CHR '':'' \<notin> set pre"
  then show "parse_video_title (incoming_msg req) = Some (strip post)"
    by (simp add: parse_video_title_def after_first_split)
qed

lemmas text_defs =
  incoming_msg_def msg_lower_def from_number_def sender_name_def example_request_def
  empty_request_def strip_def isspace_def whitespace_def is_cont_def lower_ascii_def
  lower_char_def startswith_any_def startswith_def
  body_shouted_def body_blank_def body_help_def body_fix_other_def body_fix_own_def
  body_empty_label_def

lemma from_number_example: "from_number (example_request sender text) = sender"
  by (simp add: from_number_def example_request_def)

lemma sender_name_example: "sender_name (example_request sender text) = ''Ana''"
  by (simp add: sender_name_def example_request_def)

text \<open>
  The scenario of the specification, and a message in capitals with a no-break space
  after the first colon, a second colon in the label and an em space at its end.
\<close>

theorem record_command_label_witness:
  "whatsapp_webhook example_config lower_ascii Inr clock_late
     (example_request ''whatsapp:+1'' ''Participei: clipe final'') (world_of empty_db) =
   Inr (Twiml (registered_text ''Ana''),
        world_of
          \<lparr>participations =
             [\<lparr>row_id = 1, whatsapp_number = ''whatsapp:+1'', profile_name = ''Ana'',
               participation_date = ''2024-11-03 01:59:59.500000'',
               video_title = Some ''clipe final''\<rparr>],
           sqlite_sequence = 1\<rparr>) \<and>
   whatsapp_webhook example_config lower_ascii Inr clock_late
     (example_request ''whatsapp:+1'' body_shouted)
     (world_of empty_db) =
   Inr (Twiml (registered_text ''Ana''),
        world_of
          \<lparr>participations =
             [\<lparr>row_id = 1, whatsapp_number = ''whatsapp:+1'', profile_name = ''Ana'',
               participation_date = ''2024-11-03 01:59:59.500000'',
               video_title = Some ''clipe: final''\<rparr>],
           sqlite_sequence = 1\<rparr>)"
proof -
  let ?a = "example_request ''whatsapp:+1'' ''Participei: clipe final''"
  let ?b = "example_request ''whatsapp:+1'' body_shouted"
  have now: "isoformat clock_late = ''2024-11-03 01:59:59.500000''"
    by (simp add: example_defs)
  have ha: "startswith_any (msg_lower lower_ascii ?a) [''participei'', ''gravei'', ''/participar'']"
    by (simp add: text_defs)
  have ma: "incoming_msg ?a = ''Participei'' @ CHR '':'' # '' clipe final''"
    by (simp add: text_defs)
  have ta: "strip '' clipe final'' = ''clipe final''"
    by (simp add: text_defs)
  have hb: "startswith_any (msg_lower lower_ascii ?b) [''participei'', ''gravei'', ''/participar'']"
    by (simp add: text_defs)
  have mb: "incoming_msg ?b = ''PARTICIPEI'' @ CHR '':'' # ([CHR 0xC2, CHR 0xA0] @ ''clipe: final'')"
    by (simp add: text_defs)
  have tb: "strip ([CHR 0xC2, CHR 0xA0] @ ''clipe: final'') = ''clipe: final''"
    by (simp add: text_defs)
  from record_command_label [OF ha, of example_config Inr clock_late "world_of empty_db"]
  obtain la where
    ra: "whatsapp_webhook example_config lower_ascii Inr clock_late ?a (world_of empty_db) =
          Inr (Twiml (registered_text (sender_name ?a)),
               (world_of empty_db)\<lparr>db_file :=
                   \<lparr>participations = participations (db_file (world_of empty_db)) @
                      [\<lparr>row_id = Suc (sqlite_sequence (db_file (world_of empty_db))),
                        whatsapp_number = from_number ?a, profile_name = sender_name ?a,
                        participation_date = isoformat clock_late, video_title = la\<rparr>],
                    sqlite_sequence = Suc (sqlite_sequence (db_file (world_of empty_db)))\<rparr>\<rparr>)"
    and la: "\<forall>pre post. incoming_msg ?a = pre @ CHR '':'' # post \<and> CHR '':'' \<notin> set pre \<longrightarrow>
              la = Some (strip post)"
    by blast
  have ca: "CHR '':'' \<notin> set ''Participei''"
    by simp
  from la ma ca have "la = Some (strip '' clipe final'')"
    by blast
  with ta have la': "la = Some ''clipe final''"
    by simp
  from record_command_label [OF hb, of example_config Inr clock_late "world_of empty_db"]
  obtain lb where
    rb: "whatsapp_webhook example_config lower_ascii Inr clock_late ?b (world_of empty_db) =
          Inr (Twiml (registered_text (sender_name ?b)),
               (world_of empty_db)\<lparr>db_file :=
                   \<lparr>participations = participations (db_file (world_of empty_db)) @
                      [\<lparr>row_id = Suc (sqlite_sequence (db_file (world_of empty_db))),
                        whatsapp_number = from_number ?b, profile_name = sender_name ?b,
                        participation_date = isoformat clock_late, video_title = lb\<rparr>],
                    sqlite_sequence = Suc (sqlite_sequence (db_file (world_of empty_db)))\<rparr>\<rparr>)"
    and lb: "\<forall>pre post. incoming_msg ?b = pre @ CHR '':'' # post \<and> CHR '':'' \<notin> set pre \<longrightarrow>
              lb = Some (strip post)"
    by blast
  have cb: "CHR '':'' \<notin> set ''PARTICIPEI''"
    by simp
  from lb mb cb have "lb = Some (strip ([CHR 0xC2, CHR 0xA0] @ ''clipe: final''))"
    by blast
  with tb have lb': "lb = Some ''clipe: final''"
    by simp
  from ra rb la' lb' now show ?thesis
    by (simp add: world_of_def empty_db_def from_number_example sender_name_example)
qed

section \<open>Messages that are no command\<close>

text \<open>
  C7. A message that is no record command, neither \<open>/meu historico\<close> nor \<open>/ajuda\<close>, and,
  when it comes from the administrator, none of the three administrator commands, gets
  the empty 204 response, and the world (ledger, outbox, files) stays as it was.
\<close>

theorem unrecognized_no_reply:
  assumes "\<not> startswith_any (msg_lower lower req) [''participei'', ''gravei'', ''/participar'']"
    and "msg_lower lower req \<noteq> ''/meu historico''"
    and "msg_lower lower req \<noteq> ''/ajuda''"
    and "Some (from_number req) = admin_phone_number cfg \<Longrightarrow>
           msg_lower lower req \<noteq> ''/relatorio agora'' \<and>
           msg_lower lower req \<noteq> ''/ultimos registros'' \<and>
           \<not> startswith (msg_lower lower req) ''/corrigir ultimo''"
  shows "whatsapp_webhook cfg lower to_display now req w = Inr (NoContent, w)"
  using assms by (simp add: whatsapp_webhook_def respond_def)

text \<open>A request without a body, a greeting of the administrator, and a body of nothing but
  a no-break space and an em space.\<close>

theorem unrecognized_no_reply_witness:
  "whatsapp_webhook example_config lower_ascii Inr clock_late empty_request (world_of ledger_three) =
     Inr (NoContent, world_of ledger_three) \<and>
   whatsapp_webhook example_config lower_ascii Inr clock_late
     (example_request ''whatsapp:+9'' ''bom dia'') (world_of ledger_three) =
     Inr (NoContent, world_of ledger_three) \<and>
   whatsapp_webhook example_config lower_ascii Inr clock_late
     (example_request ''whatsapp:+9'' body_blank)
     (world_of ledger_three) =
     Inr (NoContent, world_of ledger_three)"
proof -
  let ?req = "example_request ''whatsapp:+9'' ''bom dia''"
  let ?blank = "example_request ''whatsapp:+9'' body_blank"
  have e: "msg_lower lower_ascii empty_request = []"
    by (simp add: text_defs)
  have b: "msg_lower lower_ascii ?req = ''bom dia''"
    by (simp add: text_defs)
  have s: "msg_lower lower_ascii ?blank = []"
    by (simp add: text_defs)
  have "whatsapp_webhook example_config lower_ascii Inr clock_late empty_request
      (world_of ledger_three) = Inr (NoContent, world_of ledger_three)"
    by (rule unrecognized_no_reply) (simp_all add: e startswith_any_def startswith_def)
  moreover have "whatsapp_webhook example_config lower_ascii Inr clock_late ?req
      (world_of ledger_three) = Inr (NoContent, world_of ledger_three)"
    by (rule unrecognized_no_reply) (simp_all add: b startswith_any_def startswith_def)
  moreover have "whatsapp_webhook example_config lower_ascii Inr clock_late ?blank
      (world_of ledger_three) = Inr (NoContent, world_of ledger_three)"
    by (rule unrecognized_no_reply) (simp_all add: s startswith_any_def startswith_def)
  ultimately show ?thesis by simp
qed

text \<open>A no-break space before \<open>/ajuda\<close> is trimmed like any blank: the help text is sent.\<close>

lemma help_after_no_break_space:
  "whatsapp_webhook example_config lower_ascii Inr clock_late
     (example_request ''whatsapp:+1'' body_help) (world_of ledger_three) =
     Inr (Twiml help_text, world_of ledger_three)"
proof -
  have "msg_lower lower_ascii (example_request ''whatsapp:+1'' body_help) =
      ''/ajuda''"
    by (simp add: text_defs)
  moreover have "help_text \<noteq> []"
    by (simp add: help_text_def)
  ultimately show ?thesis
    by (simp add: whatsapp_webhook_def respond_def startswith_any_def startswith_def)
qed

section \<open>The correction command that names another sender\<close>

lemma startswithE:
  assumes "startswith s p"
  obtains rest where "s = p @ rest"
  using assms unfolding startswith_def by (metis append_take_drop_id)

lemma startswith_corrigir:
  assumes "startswith s ''/corrigir ultimo''"
  shows "\<not> startswith_any s [''participei'', ''gravei'', ''/participar''] \<and>
         s \<noteq> ''/meu historico'' \<and> s \<noteq> ''/ajuda'' \<and>
         s \<noteq> ''/relatorio agora'' \<and> s \<noteq> ''/ultimos registros''"
proof -
  from assms obtain rest where "s = ''/corrigir ultimo'' @ rest"
    by (rule startswithE)
  then show ?thesis
    by (simp add: startswith_any_def startswith_def)
qed

text \<open>
  C8. For a message of the administrator whose lower-cased text starts with
  \<open>/corrigir ultimo\<close> and splits into more than two parts, the route deletes nothing: it
  returns the empty 204 response and the world it was given.
\<close>

theorem fix_last_other_sender_noop:
  assumes "Some (from_number req) = admin_phone_number cfg"
    and "startswith (msg_lower lower req) ''/corrigir ultimo''"
    and "length (split_ws (msg_lower lower req)) > 2"
  shows "whatsapp_webhook cfg lower to_display now req w = Inr (NoContent, w)"
  using assms startswith_corrigir [OF assms(2)]
  by (simp add: whatsapp_webhook_def respond_def)

text \<open>The third part is set off by an ordinary blank in the first message and by an em space
  in the second.\<close>

theorem fix_last_other_sender_noop_witness:
  "whatsapp_webhook example_config lower_ascii Inr clock_late
     (example_request ''whatsapp:+9'' ''/corrigir ultimo whatsapp:+1'') (world_of ledger_three) =
     Inr (NoContent, world_of ledger_three) \<and>
   whatsapp_webhook example_config lower_ascii Inr clock_late
     (example_request ''whatsapp:+9'' body_fix_other)
     (world_of ledger_three) =
     Inr (NoContent, world_of ledger_three)"
proof -
  let ?req = "example_request ''whatsapp:+9'' ''/corrigir ultimo whatsapp:+1''"
  let ?em = "example_request ''whatsapp:+9'' body_fix_other"
  have m: "msg_lower lower_ascii ?req = ''/corrigir ultimo whatsapp:+1''"
    by (simp add: text_defs)
  have n: "msg_lower lower_ascii ?em =
      ''/corrigir ultimo'' @ [CHR 0xE2, CHR 0x80, CHR 0x83] @ ''whatsapp:+1''"
    by (simp add: text_defs)
  have a: "Some (from_number ?req) = admin_phone_number example_config"
    "Some (from_number ?em) = admin_phone_number example_config"
    by (simp_all add: from_number_example example_config_def)
  have p: "startswith (msg_lower lower_ascii ?req) ''/corrigir ultimo''"
    "startswith (msg_lower lower_ascii ?em) ''/corrigir ultimo''"
    by (simp_all add: m n startswith_def)
  have l: "length (split_ws (msg_lower lower_ascii ?req)) > 2"
    "length (split_ws (msg_lower lower_ascii ?em)) > 2"
    by (simp_all add: m n split_ws_def isspace_def whitespace_def is_cont_def)
  show ?thesis
    using fix_last_other_sender_noop [OF a(1) p(1) l(1), of Inr clock_late "world_of ledger_three"]
      fix_last_other_sender_noop [OF a(2) p(2) l(2), of Inr clock_late "world_of ledger_three"]
    by simp
qed

text \<open>
  With nothing but blanks after \<open>/corrigir ultimo\<close>, a no-break space among them, the
  message has two parts, and the last record of the administrator is deleted.
\<close>

lemma fix_last_own_record:
  "whatsapp_webhook example_config lower_ascii Inr clock_late
     (example_request ''whatsapp:+9'' body_fix_own)
     (world_of ledger_full_second) =
     Inr (Twiml removed_text, world_of \<lparr>participations = [], sqlite_sequence = 1\<rparr>)"
proof -
  let ?req = "example_request ''whatsapp:+9'' body_fix_own"
  have m: "msg_lower lower_ascii ?req = ''/corrigir ultimo''"
    by (simp add: text_defs)
  have l: "length (split_ws ''/corrigir ultimo'') = 2"
    by (simp add: split_ws_def isspace_def whitespace_def is_cont_def)
  have d: "delete_last_user_record ledger_full_second ''whatsapp:+9'' =
      (\<lparr>participations = [], sqlite_sequence = 1\<rparr>, True)"
    by (simp add: example_defs delete_last_user_record_def select_user_rows_def
          order_by_date_desc_def)
  have r: "removed_text \<noteq> []"
    by (simp add: removed_text_def)
  show ?thesis
    by (simp add: whatsapp_webhook_def m l d r respond_def startswith_any_def startswith_def
          from_number_example example_config_def world_of_def)
qed

section \<open>Stored timestamps\<close>

text \<open>
  What \<open>isoformat\<close> writes is read back by \<open>strptime\<close> exactly when the microsecond field
  is not zero, and the byte order of the stored texts is the order of the readings of the
  clock.
\<close>

lemma digit_below_ten:
  "\<forall>d\<in>set [0..<10]. digit_value (''0123456789'' ! d) = d \<and> is_digit (''0123456789'' ! d)"
  by (simp add: upt_rec digit_value_def is_digit_def)

lemma digit_char_cases:
  "digit_value (digit_char n) = n mod 10 \<and> is_digit (digit_char n)"
proof -
  have "n mod 10 \<in> set [0..<10]" by simp
  with digit_below_ten show ?thesis
    unfolding digit_char_def by blast
qed

lemma two_digits: "10 * (v div 10 mod 10) + v mod 10 = (v mod 100 :: nat)"
  using mod_mult2_eq [of v 10 10] by simp

lemma div_ten_again: "v div 10 div 10 = (v div 100 :: nat)" "v div 100 div 10 = v div 1000"
  "v div 100 div 100 = v div 10000" "v div 100 div 1000 = v div 100000"
  using div_mult2_eq [of v 10 10] div_mult2_eq [of v 100 10] div_mult2_eq [of v 100 100]
    div_mult2_eq [of v 100 1000]
  by simp_all

lemma four_digits:
  "10 * (10 * (10 * (v div 1000 mod 10) + v div 100 mod 10) + v div 10 mod 10) + v mod 10 =
     (v mod 10000 :: nat)"
proof -
  have "v mod 10000 = 10 * (v div 10 mod 1000) + v mod 10"
    using mod_mult2_eq [of v 10 1000] by simp
  moreover have "v div 10 mod 1000 = 10 * (v div 100 mod 100) + v div 10 mod 10"
    using mod_mult2_eq [of "v div 10" 10 100] by (simp add: div_ten_again)
  moreover have "v div 100 mod 100 = 10 * (v div 1000 mod 10) + v div 100 mod 10"
    using mod_mult2_eq [of "v div 100" 10 10] by (simp add: div_ten_again)
  ultimately show ?thesis by simp
qed

lemma six_digits:
  "10 * (10 * (10 * (10 * (10 * (v div 100000 mod 10) + v div 10000 mod 10) + v div 1000 mod 10) +
       v div 100 mod 10) + v div 10 mod 10) + v mod 10 = (v mod 1000000 :: nat)"
proof -
  have "v mod 1000000 = 10 * (v div 10 mod 100000) + v mod 10"
    using mod_mult2_eq [of v 10 100000] by simp
  moreover have "v div 10 mod 100000 = 10 * (v div 100 mod 10000) + v div 10 mod 10"
    using mod_mult2_eq [of "v div 10" 10 10000] by (simp add: div_ten_again)
  moreover have "v div 100 mod 10000 =
      10 * (10 * (10 * (v div 100000 mod 10) + v div 10000 mod 10) + v div 1000 mod 10) +
      v div 100 mod 10"
    using four_digits [of "v div 100"] by (simp add: div_ten_again)
  ultimately show ?thesis by simp
qed

lemma int_of_digits_pad2: "v < 100 \<Longrightarrow> int_of_digits (pad2 v) = v"
  using two_digits [of v] by (simp add: int_of_digits_def pad2_def digit_char_cases)

lemma int_of_digits_pad4: "v < 10000 \<Longrightarrow> int_of_digits (pad4 v) = v"
  using four_digits [of v] by (simp add: int_of_digits_def pad4_def digit_char_cases)

lemma int_of_digits_pad6: "v < 1000000 \<Longrightarrow> int_of_digits (pad6 v) = v"
  using six_digits [of v] by (simp add: int_of_digits_def pad6_def digit_char_cases)

lemma is_digit_pads:
  "list_all is_digit (pad2 v)" "list_all is_digit (pad4 v)" "list_all is_digit (pad6 v)"
  by (simp_all add: pad2_def pad4_def pad6_def digit_char_cases)

lemma length_pads: "length (pad2 v) = 2" "length (pad4 v) = 4" "length (pad6 v) = 6"
  by (simp_all add: pad2_def pad4_def pad6_def)

lemma days_in_month_le: "days_in_month y m \<le> 31"
  by (simp add: days_in_month_def)

lemma strptime_isoformat:
  assumes "valid_datetime dt" and "microsecond dt \<noteq> 0"
  shows "strptime (isoformat dt) = Inr dt"
proof -
  let ?s = "isoformat dt"
  have iso: "?s = pad4 (year dt) @ ''-'' @ pad2 (month dt) @ ''-'' @ pad2 (day dt) @ '' '' @
     pad2 (hour dt) @ '':'' @ pad2 (minute dt) @ '':'' @ pad2 (second dt) @ ''.'' @
     pad6 (microsecond dt)"
    using assms(2) by (simp add: isoformat_def)
  have len: "length ?s = 26"
    by (simp add: iso length_pads)
  have parts: "take 4 ?s = pad4 (year dt)" "take 2 (drop 5 ?s) = pad2 (month dt)"
    "take 2 (drop 8 ?s) = pad2 (day dt)" "take 2 (drop 11 ?s) = pad2 (hour dt)"
    "take 2 (drop 14 ?s) = pad2 (minute dt)" "take 2 (drop 17 ?s) = pad2 (second dt)"
    "drop 20 ?s = pad6 (microsecond dt)"
    by (simp_all add: iso length_pads)
  have seps: "?s ! 4 = CHR ''-''" "?s ! 7 = CHR ''-''" "?s ! 10 = CHR '' ''"
    "?s ! 13 = CHR '':''" "?s ! 16 = CHR '':''" "?s ! 19 = CHR ''.''"
    by (simp_all add: iso length_pads nth_append)
  from assms(1) have d: "day dt \<le> 31"
    using days_in_month_le [of "year dt" "month dt"] by (simp add: valid_datetime_def)
  from assms(1) d have vals:
    "int_of_digits (pad4 (year dt)) = year dt" "int_of_digits (pad2 (month dt)) = month dt"
    "int_of_digits (pad2 (day dt)) = day dt" "int_of_digits (pad2 (hour dt)) = hour dt"
    "int_of_digits (pad2 (minute dt)) = minute dt" "int_of_digits (pad2 (second dt)) = second dt"
    "int_of_digits (pad6 (microsecond dt)) = microsecond dt"
    by (simp_all add: valid_datetime_def int_of_digits_pad2 int_of_digits_pad4 int_of_digits_pad6)
  from assms(1) show ?thesis
    by (simp add: strptime_def Let_def len parts seps vals is_digit_pads length_pads
          valid_datetime_def)
qed

lemma strptime_isoformat_full_second:
  assumes "microsecond dt = 0"
  shows "strptime (isoformat dt) = Inl ValueError"
  using assms by (simp add: strptime_def isoformat_def length_pads)

lemma digit_code_below_ten:
  "\<forall>d\<in>set [0..<10]. of_char (''0123456789'' ! d) = (48 + d :: nat)"
  by (simp add: upt_rec)

lemma of_char_digit_char: "of_char (digit_char n) = (48 + n mod 10 :: nat)"
proof -
  have "n mod 10 \<in> set [0..<10]" by simp
  with digit_code_below_ten show ?thesis
    unfolding digit_char_def by blast
qed

lemma digit_char_order:
  "(digit_char m < digit_char n \<longleftrightarrow> m mod 10 < n mod 10) \<and>
   (digit_char m = digit_char n \<longleftrightarrow> m mod 10 = n mod 10)"
proof -
  have "digit_char m = digit_char n \<longleftrightarrow>
      (of_char (digit_char m) :: nat) = of_char (digit_char n)"
    by simp
  then show ?thesis
    by (simp add: less_char_def of_char_digit_char)
qed

lemma append_less_same_length:
  "length xs = length ys \<Longrightarrow>
     (xs @ us < ys @ vs \<longleftrightarrow> xs < ys \<or> xs = ys \<and> us < vs)"
  by (induction xs ys rule: list_induct2) auto

lemma append_eq_same_length:
  "length xs = length ys \<Longrightarrow> (xs @ us = ys @ vs \<longleftrightarrow> xs = ys \<and> us = vs)"
  by simp

lemma base_order:
  fixes W x y r s :: nat
  assumes "r < W" "s < W"
  shows "(W * x + r < W * y + s \<longleftrightarrow> x < y \<or> x = y \<and> r < s)"
    and "(W * x + r = W * y + s \<longleftrightarrow> x = y \<and> r = s)"
proof -
  have step: "W * u + v < W * w + t" if "u < w" "v < W" for u v w t :: nat
  proof -
    from that(1) have "W * Suc u \<le> W * w"
      by (intro mult_le_mono2) simp
    moreover from that(2) have "W * u + v < W * Suc u"
      by simp
    ultimately show ?thesis by linarith
  qed
  show "(W * x + r < W * y + s \<longleftrightarrow> x < y \<or> x = y \<and> r < s)"
  proof (cases x y rule: linorder_cases)
    case less
    with step [of x y r s] assms show ?thesis by simp
  next
    case equal
    then show ?thesis by simp
  next
    case greater
    with step [of y x s r] assms show ?thesis by simp
  qed
  show "(W * x + r = W * y + s \<longleftrightarrow> x = y \<and> r = s)"
  proof (cases x y rule: linorder_cases)
    case less
    with step [of x y r s] assms show ?thesis by simp
  next
    case equal
    then show ?thesis by simp
  next
    case greater
    with step [of y x s r] assms show ?thesis by simp
  qed
qed

lemma pad2_order:
  "(pad2 a < pad2 b \<longleftrightarrow> a mod 100 < b mod 100) \<and> (pad2 a = pad2 b \<longleftrightarrow> a mod 100 = b mod 100)"
proof -
  let ?x = "a div 10 mod 10" and ?y = "b div 10 mod 10"
  let ?r = "a mod 10" and ?s = "b mod 10"
  have a: "a mod 100 = 10 * ?x + ?r" and b: "b mod 100 = 10 * ?y + ?s"
    by (simp_all only: two_digits)
  have r: "?r < 10" and s: "?s < 10" by simp_all
  have "pad2 a < pad2 b \<longleftrightarrow> ?x < ?y \<or> ?x = ?y \<and> ?r < ?s"
    by (simp add: pad2_def digit_char_order)
  moreover have "pad2 a = pad2 b \<longleftrightarrow> ?x = ?y \<and> ?r = ?s"
    by (simp add: pad2_def digit_char_order)
  ultimately show ?thesis
    unfolding a b by (simp only: base_order [OF r s])
qed

lemma pad4_split: "pad4 v = pad2 (v div 100) @ pad2 v"
  by (simp add: pad4_def pad2_def div_ten_again)

lemma pad6_split: "pad6 v = pad4 (v div 100) @ pad2 v"
  by (simp add: pad6_def pad4_def pad2_def div_ten_again)

lemma pad4_order:
  "(pad4 a < pad4 b \<longleftrightarrow> a mod 10000 < b mod 10000) \<and>
   (pad4 a = pad4 b \<longleftrightarrow> a mod 10000 = b mod 10000)"
proof -
  let ?x = "a div 100 mod 100" and ?y = "b div 100 mod 100"
  let ?r = "a mod 100" and ?s = "b mod 100"
  have a: "a mod 10000 = 100 * ?x + ?r" and b: "b mod 10000 = 100 * ?y + ?s"
    using mod_mult2_eq [of a 100 100] mod_mult2_eq [of b 100 100] by simp_all
  have r: "?r < 100" and s: "?s < 100" by simp_all
  have "pad4 a < pad4 b \<longleftrightarrow> ?x < ?y \<or> ?x = ?y \<and> ?r < ?s"
    by (simp only: pad4_split append_less_same_length length_pads pad2_order)
  moreover have "pad4 a = pad4 b \<longleftrightarrow> ?x = ?y \<and> ?r = ?s"
    by (simp only: pad4_split append_eq_same_length length_pads pad2_order)
  ultimately show ?thesis
    unfolding a b by (simp only: base_order [OF r s])
qed

lemma pad6_order:
  "(pad6 a < pad6 b \<longleftrightarrow> a mod 1000000 < b mod 1000000) \<and>
   (pad6 a = pad6 b \<longleftrightarrow> a mod 1000000 = b mod 1000000)"
proof -
  let ?x = "a div 100 mod 10000" and ?y = "b div 100 mod 10000"
  let ?r = "a mod 100" and ?s = "b mod 100"
  have a: "a mod 1000000 = 100 * ?x + ?r" and b: "b mod 1000000 = 100 * ?y + ?s"
    using mod_mult2_eq [of a 100 10000] mod_mult2_eq [of b 100 10000] by simp_all
  have r: "?r < 100" and s: "?s < 100" by simp_all
  have "pad6 a < pad6 b \<longleftrightarrow> ?x < ?y \<or> ?x = ?y \<and> ?r < ?s"
    by (simp only: pad6_split append_less_same_length length_pads pad2_order pad4_order)
  moreover have "pad6 a = pad6 b \<longleftrightarrow> ?x = ?y \<and> ?r = ?s"
    by (simp only: pad6_split append_eq_same_length length_pads pad2_order pad4_order)
  ultimately show ?thesis
    unfolding a b by (simp only: base_order [OF r s])
qed

lemma fraction_order:
  assumes "ma \<le> 999999" "mb \<le> 999999"
  shows "((if ma = 0 then [] else ''.'' @ pad6 ma) < (if mb = 0 then [] else ''.'' @ pad6 mb)
          \<longleftrightarrow> ma < mb) \<and>
         ((if ma = 0 then [] else ''.'' @ pad6 ma) = (if mb = 0 then [] else ''.'' @ pad6 mb)
          \<longleftrightarrow> ma = mb)"
  using assms by (auto simp: pad6_order)

lemma valid_datetime_bounds:
  assumes "valid_datetime dt"
  shows "year dt mod 10000 = year dt" "month dt mod 100 = month dt" "day dt mod 100 = day dt"
    "hour dt mod 100 = hour dt" "minute dt mod 100 = minute dt" "second dt mod 100 = second dt"
    "microsecond dt \<le> 999999"
proof -
  from assms have "day dt \<le> 31"
    using days_in_month_le [of "year dt" "month dt"] by (simp add: valid_datetime_def)
  with assms show "year dt mod 10000 = year dt" "month dt mod 100 = month dt"
    "day dt mod 100 = day dt" "hour dt mod 100 = hour dt" "minute dt mod 100 = minute dt"
    "second dt mod 100 = second dt" "microsecond dt \<le> 999999"
    by (simp_all add: valid_datetime_def)
qed

lemma isoformat_less_iff:
  assumes "valid_datetime a" and "valid_datetime b"
  shows "isoformat a < isoformat b \<longleftrightarrow> datetime_key a < datetime_key b"
proof -
  note fa = fraction_order [OF valid_datetime_bounds(7) [OF assms(1)] valid_datetime_bounds(7) [OF assms(2)]]
  show ?thesis
    unfolding isoformat_def datetime_key_def
    by (simp add: append_less_same_length length_pads pad2_order pad4_order fa
          valid_datetime_bounds [OF assms(1)] valid_datetime_bounds [OF assms(2)]
          del: append_assoc)
qed

section \<open>Reading back a timestamp stored on a full second\<close>

text \<open>
  C9. A record created at a reading of the clock whose microsecond field is zero is stored
  without a fraction. The format of \<open>strptime\<close> demands the dot and the fraction, so
  \<open>/meu historico\<close> of the sender and \<open>/ultimos registros\<close> of the administrator both end
  in \<open>ValueError\<close> once such a record is among those they list.
\<close>

theorem full_second_timestamp_not_parsed:
  "valid_datetime clock_full_second \<and>
   map participation_date (participations ledger_full_second) = [''2024-11-03 10:00:00''] \<and>
   strptime ''2024-11-03 10:00:00'' = Inl ValueError \<and>
   whatsapp_webhook example_config lower_ascii Inr clock_late
     (example_request ''whatsapp:+9'' ''/meu historico'') (world_of ledger_full_second) =
     Inl ValueError \<and>
   whatsapp_webhook example_config lower_ascii Inr clock_late
     (example_request ''whatsapp:+9'' ''/ultimos registros'') (world_of ledger_full_second) =
     Inl ValueError"
proof -
  have v: "valid_datetime clock_full_second"
    by (simp add: valid_datetime_def clock_full_second_def days_in_month_def)
  have d: "participations ledger_full_second =
      [\<lparr>row_id = 1, whatsapp_number = ''whatsapp:+9'', profile_name = ''Admin'',
        participation_date = ''2024-11-03 10:00:00'', video_title = None\<rparr>]"
    by (simp add: example_defs)
  have s: "strptime ''2024-11-03 10:00:00'' = Inl ValueError"
    by (simp add: strptime_def)
  have h: "msg_lower lower_ascii (example_request ''whatsapp:+9'' ''/meu historico'') =
      ''/meu historico''"
    by (simp add: text_defs)
  have u: "msg_lower lower_ascii (example_request ''whatsapp:+9'' ''/ultimos registros'') =
      ''/ultimos registros''"
    by (simp add: text_defs)
  have hist: "get_user_history ledger_full_second ''whatsapp:+9'' = [(''2024-11-03 10:00:00'', None)]"
    by (simp add: get_user_history_def select_user_rows_def order_by_date_desc_def d)
  have lst: "get_last_10_records ledger_full_second = [(''Admin'', ''2024-11-03 10:00:00'', None)]"
    by (simp add: get_last_10_records_def select_last_rows_def order_by_date_desc_def d)
  have w1: "whatsapp_webhook example_config lower_ascii Inr clock_late
     (example_request ''whatsapp:+9'' ''/meu historico'') (world_of ledger_full_second) =
     Inl ValueError"
    by (simp add: whatsapp_webhook_def h startswith_any_def startswith_def world_of_def
          from_number_example hist history_line_def s)
  have w2: "whatsapp_webhook example_config lower_ascii Inr clock_late
     (example_request ''whatsapp:+9'' ''/ultimos registros'') (world_of ledger_full_second) =
     Inl ValueError"
    by (simp add: whatsapp_webhook_def u startswith_any_def startswith_def world_of_def
          from_number_example example_config_def lst last_line_def s)
  from v d s w1 w2 show ?thesis by simp
qed

section \<open>The empty label\<close>

lemma concat_chars: "concat (chars s) = s"
  by (induction s rule: chars.induct) simp_all

lemma isspace_head: "isspace ch \<Longrightarrow> ch \<noteq> [] \<and> \<not> is_cont (hd ch)"
  by (auto simp: isspace_def whitespace_def is_cont_def)

lemma not_isspace_colon: "\<not> isspace '':''"
  by (simp add: isspace_def whitespace_def)

lemma takeWhile_keep: "\<not> P y \<Longrightarrow> takeWhile P (xs @ y # ys) = takeWhile P xs"
  by (induction xs) auto

lemma dropWhile_keep: "\<not> P y \<Longrightarrow> dropWhile P (xs @ y # ys) = dropWhile P xs @ y # ys"
  by (induction xs) auto

lemma dropWhile_all: "list_all P xs \<Longrightarrow> \<not> P y \<Longrightarrow> dropWhile P (xs @ y # ys) = y # ys"
  by (induction xs) auto

text \<open>A byte that is no continuation byte starts a character of its own.\<close>

lemma chars_append_lead:
  "\<not> is_cont c \<Longrightarrow> chars (xs @ c # ys) = chars xs @ chars (c # ys)"
  by (induction xs rule: chars.induct) (simp_all add: takeWhile_keep dropWhile_keep)

lemma chars_lead_spaces:
  assumes "list_all isspace (chars ws)"
  shows "chars (c # ws) = [c] # chars ws"
proof (cases ws)
  case Nil
  then show ?thesis by simp
next
  case (Cons w ws')
  with assms have "isspace (w # takeWhile is_cont ws')" by simp
  then have "\<not> is_cont w" using isspace_head by fastforce
  with Cons show ?thesis by simp
qed

lemma strip_colon_blank:
  assumes "list_all isspace (chars ws)"
  shows "strip (pre @ CHR '':'' # ws) = concat (dropWhile isspace (chars pre)) @ '':''"
proof -
  have "\<not> is_cont CHR '':''"
    by (simp add: is_cont_def)
  then have "chars (pre @ CHR '':'' # ws) = chars pre @ chars (CHR '':'' # ws)"
    by (rule chars_append_lead)
  then have c: "chars (pre @ CHR '':'' # ws) = chars pre @ '':'' # chars ws"
    by (simp only: chars_lead_spaces [OF assms])
  have l: "dropWhile isspace (chars pre @ '':'' # chars ws) =
      dropWhile isspace (chars pre) @ '':'' # chars ws"
    by (rule dropWhile_keep) (rule not_isspace_colon)
  have "list_all isspace (rev (chars ws))"
    using assms by (simp add: list_all_iff)
  then have r: "dropWhile isspace (rev (chars ws) @ '':'' # rev (dropWhile isspace (chars pre))) =
      '':'' # rev (dropWhile isspace (chars pre))"
    by (rule dropWhile_all) (rule not_isspace_colon)
  show ?thesis
    by (simp add: strip_def c l r)
qed

lemma parse_video_title_blank:
  assumes "CHR '':'' \<notin> set pre" and "list_all isspace (chars ws)"
  shows "parse_video_title (strip (pre @ CHR '':'' # ws)) = Some []"
proof -
  let ?p = "concat (dropWhile isspace (chars pre))"
  have "set ?p \<subseteq> set (concat (chars pre))"
    by (auto dest: set_dropWhileD)
  with assms(1) have "CHR '':'' \<notin> set ?p"
    by (auto simp: concat_chars)
  then have a: "after_first CHR '':'' (?p @ [CHR '':'']) = []"
    by (rule after_first_split)
  have e: "strip [] = []"
    by (simp add: strip_def)
  show ?thesis
    unfolding strip_colon_blank [OF assms(2)] parse_video_title_def
    by (simp add: a e)
qed

lemma history_line_empty_title: "history_line (d, Some []) = history_line (d, None)"
  by (simp add: history_line_def split: sum.splits)

lemma last_line_empty_title: "last_line (p, d, Some []) = last_line (p, d, None)"
  by (simp add: last_line_def split: sum.splits)

text \<open>
  C10. A record command whose body is \<open>pre\<close>, a colon and then only whitespace characters
  (or nothing), with no colon in \<open>pre\<close>, appends a record whose label is the empty string,
  not \<open>None\<close>. The line of the history and the line of the listing for a record with the
  empty label are the lines for a record with no label: the date alone, with no label
  after it.
\<close>

theorem empty_label_stored_and_hidden:
  assumes "startswith_any (msg_lower lower req) [''participei'', ''gravei'', ''/participar'']"
    and "Body req = Some (pre @ CHR '':'' # ws)"
    and "CHR '':'' \<notin> set pre"
    and "list_all isspace (chars ws)"
  shows "whatsapp_webhook cfg lower to_display now req w =
           Inr (Twiml (registered_text (sender_name req)),
                w\<lparr>db_file :=
                    \<lparr>participations = participations (db_file w) @
                       [\<lparr>row_id = Suc (sqlite_sequence (db_file w)),
                         whatsapp_number = from_number req, profile_name = sender_name req,
                         participation_date = isoformat now, video_title = Some []\<rparr>],
                     sqlite_sequence = Suc (sqlite_sequence (db_file w))\<rparr>\<rparr>) \<and>
         Some [] \<noteq> (None :: string option) \<and>
         history_line (d, Some []) = history_line (d, None) \<and>
         last_line (p, d, Some []) = last_line (p, d, None) \<and>
         (strptime d = Inr dt \<longrightarrow>
            history_line (d, Some []) = Inr (''- '' @ strftime_dmY dt @ nl) \<and>
            last_line (p, d, Some []) = Inr (''- '' @ p @ '' em '' @ strftime_dm_HM dt @ nl))"
proof -
  have "incoming_msg req = strip (pre @ CHR '':'' # ws)"
    using assms(2) by (simp add: incoming_msg_def)
  then have "parse_video_title (incoming_msg req) = Some []"
    using assms(3,4) by (simp add: parse_video_title_blank)
  moreover have "strptime d = Inr dt \<longrightarrow>
      history_line (d, Some []) = Inr (''- '' @ strftime_dmY dt @ nl) \<and>
      last_line (p, d, Some []) = Inr (''- '' @ p @ '' em '' @ strftime_dm_HM dt @ nl)"
    by (simp add: history_line_def last_line_def)
  ultimately show ?thesis
    using record_command [OF assms(1), of cfg to_display now w]
    by (simp add: history_line_empty_title last_line_empty_title)
qed

text \<open>The label part of the body is a no-break space and a blank.\<close>

theorem empty_label_stored_and_hidden_witness:
  "whatsapp_webhook example_config lower_ascii Inr clock_late
     (example_request ''whatsapp:+1'' body_empty_label) (world_of empty_db) =
   Inr (Twiml (registered_text ''Ana''),
        world_of
          \<lparr>participations =
             [\<lparr>row_id = 1, whatsapp_number = ''whatsapp:+1'', profile_name = ''Ana'',
               participation_date = ''2024-11-03 01:59:59.500000'', video_title = Some []\<rparr>],
           sqlite_sequence = 1\<rparr>) \<and>
   history_line (''2024-11-03 01:59:59.500000'', Some []) = Inr (''- 03/11/2024'' @ nl) \<and>
   last_line (''Ana'', ''2024-11-03 01:59:59.500000'', Some []) =
     Inr (''- Ana em 03/11 01:59'' @ nl)"
proof -
  let ?req = "example_request ''whatsapp:+1'' body_empty_label"
  have h: "startswith_any (msg_lower lower_ascii ?req) [''participei'', ''gravei'', ''/participar'']"
    by (simp add: text_defs)
  have b: "Body ?req = Some (''Gravei'' @ CHR '':'' # [CHR 0xC2, CHR 0xA0, CHR '' ''])"
    by (simp add: example_request_def body_empty_label_def)
  have c: "CHR '':'' \<notin> set ''Gravei''"
    by simp
  have s: "list_all isspace (chars [CHR 0xC2, CHR 0xA0, CHR '' ''])"
    by (simp add: isspace_def whitespace_def is_cont_def)
  have now: "isoformat clock_late = ''2024-11-03 01:59:59.500000''"
    by (simp add: example_defs)
  have t: "strptime ''2024-11-03 01:59:59.500000'' = Inr clock_late"
    by (simp add: strptime_def Let_def is_digit_def int_of_digits_def digit_value_def
          valid_datetime_def days_in_month_def clock_late_def)
  have f: "strftime_dmY clock_late = ''03/11/2024''" "strftime_dm_HM clock_late = ''03/11 01:59''"
    by (simp_all add: strftime_dmY_def strftime_dm_HM_def clock_late_def pad2_def pad4_def
          digit_char_def)
  from empty_label_stored_and_hidden [OF h b c s, of example_config Inr clock_late
      "world_of empty_db" "''2024-11-03 01:59:59.500000''" "''Ana''" clock_late] t f now
  show ?thesis
    by (simp add: world_of_def empty_db_def from_number_example sender_name_example
          history_line_def last_line_def)
qed

end
